theory Spec2Isabelle
  imports Main "HOL-Library.Sublist" "HOL-Library.AList"
begin

section \<open>Constants (src/constants.py)\<close>

definition BUILT_IN_TYPES :: "string list" where
  "BUILT_IN_TYPES = [''ID'', ''Int'', ''Float'', ''String'', ''Boolean'']"

definition BUILT_IN_TYPE_KINDS :: "string list" where
  "BUILT_IN_TYPE_KINDS =
     [''SCALAR'', ''OBJECT'', ''INTERFACE'', ''UNION'', ''ENUM'', ''INPUT_OBJECT'', ''LIST'', ''NON_NULL'']"

definition MAX_OBJECT_CYCLES :: nat where
  "MAX_OBJECT_CYCLES = 2"

definition MAX_OUTPUT_SELECTOR_DEPTH :: nat where
  "MAX_OUTPUT_SELECTOR_DEPTH = 2"

definition MAX_INPUT_DEPTH :: nat where
  "MAX_INPUT_DEPTH = 10"

definition NO_DATA_COUNT_AS_SUCCESS :: bool where
  "NO_DATA_COUNT_AS_SUCCESS = False"

section \<open>Values, exceptions and descriptors\<close>

text \<open>
  The exceptions the modelled code raises or lets through, all subclasses of Python's
  \<open>Exception\<close>. \<open>RecursionError\<close> is what the interpreter raises when the call stack
  is exhausted; \<open>OtherException\<close> stands for any further subclass of \<open>Exception\<close>
  a collaborator may raise.
\<close>

datatype exn =
    HardDependencyNotMetException string
  | BdbQuit
  | TypeError
  | KeyError
  | IndexError
  | ValueError
  | AttributeError
  | UnboundLocalError
  | RecursionError
  | OtherException string

text \<open>
  Python values as the fuzzer meets them at run time: decoded JSON (null, booleans,
  numbers, strings, lists, dictionaries in key order), tuples, and the \<open>requests\<close>
  response object, of which only \<open>status_code\<close> is read.
\<close>

datatype pyval =
    PNone
  | PBool bool
  | PInt int
  | PStr string
  | PList "pyval list"
  | PDict "(string \<times> pyval) list"
  | PTuple "pyval list"
  | PResponse int

text \<open>
  A type descriptor as the materializers read it: the keys \<open>kind\<close>, \<open>name\<close>, \<open>type\<close>
  and \<open>ofType\<close>, the last one a nested descriptor or null.
\<close>

datatype type_descriptor =
  TypeDescriptor (td_kind: string) (td_name: string) (td_type: string) (td_ofType: "type_descriptor option")

record operation_descriptor =
  op_inputs :: "(string \<times> type_descriptor) list"
  op_output :: type_descriptor
  op_hardDependsOn :: "(string \<times> string) list"
  op_softDependsOn :: "(string \<times> string) list"
  op_mutationType :: string

record object_info =
  oi_fields :: "type_descriptor list"

record input_object =
  inputFields :: "(string \<times> type_descriptor) list"

type_synonym objects_bucket = "(string \<times> pyval list) list"

section \<open>Object dependency resolver (src/compiler/resolvers/object_dependency_resolver.py)\<close>

text \<open>
  A field of a parsed object, as the resolver reads it: the keys \<open>kind\<close>, \<open>type\<close> and
  \<open>ofType\<close> of the field's dictionary. They are the fields the materializer walks:
  \<open>type\<close> is the name of the field's type or null, \<open>ofType\<close> is the nested descriptor
  under a \<open>NON_NULL\<close> or a \<open>LIST\<close>, or null.
\<close>

record gql_field =
  fld_name :: string
  fld_kind :: string
  fld_type :: "string option"
  fld_ofType :: "type_descriptor option"

text \<open>
  What the resolver appends to a list of dependencies: the value of the field's \<open>type\<close>
  key or the value of its \<open>ofType\<close> key, as it finds it.
\<close>

datatype dependency =
    Dep_type "string option"
  | Dep_ofType "type_descriptor option"

record gql_object =
  obj_fields :: "gql_field list"
  obj_softDependsOn :: "dependency list"
  obj_hardDependsOn :: "dependency list"

text \<open>
  Python's \<open>x not in BUILT_IN_TYPES\<close>: a name is compared with the five names; null and
  a descriptor, which is a dictionary, equal none of the strings of the list.
\<close>

fun not_in_BUILT_IN_TYPES :: "dependency \<Rightarrow> bool" where
  "not_in_BUILT_IN_TYPES (Dep_type None) = True"
| "not_in_BUILT_IN_TYPES (Dep_type (Some s)) = (s \<notin> set BUILT_IN_TYPES)"
| "not_in_BUILT_IN_TYPES (Dep_ofType d) = True"

text \<open>
  One turn of the loop of \<open>parse_gql_object\<close> over a field, on the two lists
  \<open>(soft_dependent_objects, hard_dependent_objects)\<close>: the first \<open>if\<close>, then the
  \<open>if\<close>/\<open>elif\<close> pair.
\<close>

definition parse_gql_field ::
  "gql_field \<Rightarrow> dependency list \<times> dependency list \<Rightarrow> dependency list \<times> dependency list" where
  "parse_gql_field field acc =
     (let soft = fst acc; hard = snd acc;
          soft1 = (if fld_kind field \<in> set BUILT_IN_TYPE_KINDS \<and> fld_kind field \<noteq> ''NON_NULL''
                      \<and> fld_kind field \<noteq> ''LIST''
                   then (if not_in_BUILT_IN_TYPES (Dep_type (fld_type field))
                         then soft @ [Dep_type (fld_type field)] else soft)
                   else soft)
      in if fld_kind field = ''NON_NULL''
         then (soft1, if not_in_BUILT_IN_TYPES (Dep_ofType (fld_ofType field))
                      then hard @ [Dep_ofType (fld_ofType field)] else hard)
         else if fld_kind field = ''LIST''
         then (if not_in_BUILT_IN_TYPES (Dep_ofType (fld_ofType field))
               then soft1 @ [Dep_ofType (fld_ofType field)] else soft1, hard)
         else (soft1, hard))"

definition parse_gql_object :: "gql_object \<Rightarrow> gql_object" where
  "parse_gql_object gql_object =
     (let acc = foldl (\<lambda>acc field. parse_gql_field field acc) ([], []) (obj_fields gql_object)
      in gql_object\<lparr>obj_softDependsOn := fst acc, obj_hardDependsOn := snd acc\<rparr>)"

text \<open>\<open>resolve\<close> enriches every object of the dictionary, in its order.\<close>

definition resolve :: "(string \<times> gql_object) list \<Rightarrow> (string \<times> gql_object) list" where
  "resolve objects = map (\<lambda>(gql_object_key, gql_object). (gql_object_key, parse_gql_object gql_object)) objects"

text \<open>What one field alone adds to the two lists.\<close>

definition field_dependencies :: "gql_field \<Rightarrow> dependency list \<times> dependency list" where
  "field_dependencies field = parse_gql_field field ([], [])"

text \<open>
  An object \<open>Post\<close> with the fields \<open>id: ID!\<close>, \<open>author: User!\<close>, \<open>tags: [Tag]\<close>,
  \<open>title: String\<close> and \<open>blog: Blog\<close>.
\<close>

definition example_post :: gql_object where
  "example_post = \<lparr>obj_fields =
      [\<lparr>fld_name = ''id'', fld_kind = ''NON_NULL'', fld_type = None,
          fld_ofType = Some (TypeDescriptor ''SCALAR'' ''ID'' ''ID'' None)\<rparr>,
       \<lparr>fld_name = ''author'', fld_kind = ''NON_NULL'', fld_type = None,
          fld_ofType = Some (TypeDescriptor ''OBJECT'' ''User'' ''User'' None)\<rparr>,
       \<lparr>fld_name = ''tags'', fld_kind = ''LIST'', fld_type = None,
          fld_ofType = Some (TypeDescriptor ''SCALAR'' ''String'' ''String'' None)\<rparr>,
       \<lparr>fld_name = ''title'', fld_kind = ''SCALAR'', fld_type = Some ''String'', fld_ofType = None\<rparr>,
       \<lparr>fld_name = ''blog'', fld_kind = ''OBJECT'', fld_type = Some ''Blog'', fld_ofType = None\<rparr>],
     obj_softDependsOn = [], obj_hardDependsOn = []\<rparr>"

section \<open>The regular materializer (src/fuzzer/fengine/materializers/regular_materializer.py)\<close>

text \<open>
  What the materializer calls but this repository's sources do not define, taken as
  parameters: \<open>get_random_scalar\<close> (it may raise; its third argument is the number of
  draws made from the random source before the call), Python's \<open>str\<close> on a bucket value,
  and the random source behind \<open>random.choice\<close>, as the number it gives at each draw.
\<close>

record helpers =
  get_random_scalar :: "string \<Rightarrow> string \<Rightarrow> nat \<Rightarrow> exn + string"
  py_str :: "pyval \<Rightarrow> string"
  rand :: "nat \<Rightarrow> nat"

text \<open>
  The state a materialization changes: \<open>self.used_objects\<close> and the number of random
  draws made. The objects bucket is only read, so it is no part of this state. A raise
  leaves the state as it is at that point, so every function returns the state beside a
  result or an exception.
\<close>

record mstate =
  used_objects :: "(string \<times> pyval) list"
  draws :: nat

text \<open>\<open>random.choice\<close>: \<open>IndexError\<close> on an empty sequence.\<close>

definition random_choice :: "helpers \<Rightarrow> pyval list \<Rightarrow> mstate \<Rightarrow> (exn + pyval) \<times> mstate" where
  "random_choice h xs st =
     (if xs = [] then (Inl IndexError, st)
      else (Inr (xs ! (rand h (draws st) mod length xs)), st\<lparr>draws := Suc (draws st)\<rparr>))"

definition dquote :: string where
  "dquote = [CHR 0x22]"

text \<open>
  The loop of \<open>materialize_inputs\<close> over \<open>inputs.items()\<close>, with the call on a field as
  \<open>f\<close>; a raise ends the loop.
\<close>

fun materialize_inputs_loop ::
  "(type_descriptor \<Rightarrow> mstate \<Rightarrow> (exn + string) \<times> mstate) \<Rightarrow> (string \<times> type_descriptor) list
     \<Rightarrow> string \<Rightarrow> mstate \<Rightarrow> (exn + string) \<times> mstate" where
  "materialize_inputs_loop f [] built_str st = (Inr built_str, st)"
| "materialize_inputs_loop f ((input_name, input_field) # rest) built_str st =
     (case f input_field st of
        (Inl e, st') \<Rightarrow> (Inl e, st')
      | (Inr s, st') \<Rightarrow> materialize_inputs_loop f rest (built_str @ input_name @ '': '' @ s @ '','') st')"

text \<open>
  \<open>materialize_inputs\<close> and \<open>materialize_input_field\<close> call each other with no bound of
  their own. The first argument is the number of stack frames the interpreter still
  allows: a call with none left raises \<open>RecursionError\<close>, every call passes one less to
  the calls it makes. The logger calls are left out.
\<close>

fun materialize_inputs ::
  "nat \<Rightarrow> helpers \<Rightarrow> (string \<times> input_object) list \<Rightarrow> operation_descriptor
     \<Rightarrow> (string \<times> type_descriptor) list \<Rightarrow> objects_bucket \<Rightarrow> mstate \<Rightarrow> (exn + string) \<times> mstate"
and materialize_input_field ::
  "nat \<Rightarrow> helpers \<Rightarrow> (string \<times> input_object) list \<Rightarrow> operation_descriptor
     \<Rightarrow> type_descriptor \<Rightarrow> objects_bucket \<Rightarrow> bool \<Rightarrow> mstate \<Rightarrow> (exn + string) \<times> mstate"
where
  "materialize_inputs 0 h input_objects operator_info inputs bucket st = (Inl RecursionError, st)"
| "materialize_inputs (Suc d) h input_objects operator_info inputs bucket st =
     materialize_inputs_loop
       (\<lambda>input_field. materialize_input_field d h input_objects operator_info input_field bucket True)
       inputs [] st"
| "materialize_input_field 0 h input_objects operator_info input_field bucket check_deps st =
     (Inl RecursionError, st)"
| "materialize_input_field (Suc d) h input_objects operator_info input_field bucket check_deps st =
     (case (if check_deps then map_of (op_hardDependsOn operator_info) (td_name input_field) else None) of
        Some hard_dependency_name \<Rightarrow>
          (case map_of bucket hard_dependency_name of
             Some ids \<Rightarrow>
               (case random_choice h ids st of
                  (Inl e, st') \<Rightarrow> (Inl e, st')
                | (Inr randomly_chosen_dependency_val, st') \<Rightarrow>
                    (Inr (dquote @ py_str h randomly_chosen_dependency_val @ dquote),
                     st'\<lparr>used_objects :=
                        AList.update hard_dependency_name randomly_chosen_dependency_val (used_objects st')\<rparr>))
           | None \<Rightarrow>
               if hard_dependency_name = ''UNKNOWN''
               then materialize_input_field d h input_objects operator_info input_field bucket False st
               else (Inl (HardDependencyNotMetException hard_dependency_name), st))
      | None \<Rightarrow>
          (case (if check_deps then map_of (op_softDependsOn operator_info) (td_name input_field) else None) of
             Some soft_depedency_name \<Rightarrow>
               (case map_of bucket soft_depedency_name of
                  Some ids \<Rightarrow> (Inl UnboundLocalError, st)
                | None \<Rightarrow>
                    materialize_input_field d h input_objects operator_info input_field bucket False st)
           | None \<Rightarrow>
               if td_kind input_field = ''NON_NULL'' then
                 (case td_ofType input_field of
                    None \<Rightarrow> (Inl TypeError, st)
                  | Some inner \<Rightarrow>
                      materialize_input_field d h input_objects operator_info inner bucket True st)
               else if td_kind input_field = ''LIST'' then
                 (case td_ofType input_field of
                    None \<Rightarrow> (Inl TypeError, st)
                  | Some inner \<Rightarrow>
                      (case materialize_input_field d h input_objects operator_info inner bucket True st of
                         (Inl e, st') \<Rightarrow> (Inl e, st')
                       | (Inr s, st') \<Rightarrow> (Inr (''['' @ s @ '']''), st')))
               else if td_kind input_field = ''INPUT_OBJECT'' then
                 (case map_of input_objects (td_type input_field) of
                    None \<Rightarrow> (Inl KeyError, st)
                  | Some input_object \<Rightarrow>
                      (case materialize_inputs d h input_objects operator_info (inputFields input_object)
                              bucket st of
                         (Inl e, st') \<Rightarrow> (Inl e, st')
                       | (Inr s, st') \<Rightarrow> (Inr (''{'' @ s @ ''}''), st')))
               else if td_kind input_field = ''SCALAR'' then
                 (get_random_scalar h (td_name input_field) (td_type input_field) (draws st),
                  st\<lparr>draws := Suc (draws st)\<rparr>)
               else (Inr [], st)))"

text \<open>
  Modelled from the spec: \<open>get_base_oftype\<close> of \<open>utils/parser_utils\<close> is not among the
  sources. The spec has the materializer "unwrap to the base type": the descriptor
  reached by following \<open>ofType\<close> until there is none.
\<close>

fun get_base_oftype :: "type_descriptor \<Rightarrow> type_descriptor" where
  "get_base_oftype (TypeDescriptor k n t None) = TypeDescriptor k n t None"
| "get_base_oftype (TypeDescriptor k n t (Some inner)) = get_base_oftype inner"

text \<open>
  The loop of \<open>materialize_output_object_fields\<close> over the fields of an object, with the
  call on a field as \<open>f\<close>. The list of used objects is one Python list, appended to in
  place by every call, so each call gets the list the call before it left.
\<close>

fun materialize_output_fields_loop ::
  "(type_descriptor \<Rightarrow> string list \<Rightarrow> (exn + string) \<times> string list) \<Rightarrow> type_descriptor list
     \<Rightarrow> string \<Rightarrow> string list \<Rightarrow> (exn + string) \<times> string list" where
  "materialize_output_fields_loop f [] built_str used = (Inr built_str, used)"
| "materialize_output_fields_loop f (field # rest) built_str used =
     (case f field used of
        (Inl e, used') \<Rightarrow> (Inl e, used')
      | (Inr field_output, used') \<Rightarrow>
          materialize_output_fields_loop f rest
            (if field_output \<noteq> [] \<and> field_output \<noteq> ''{}'' then built_str @ field_output else built_str)
            used')"

text \<open>
  \<open>materialize_output\<close> and \<open>materialize_output_object_fields\<close>. The first argument is
  again the number of stack frames the interpreter still allows. The list of used objects
  is returned as the calls leave it; \<open>skip_keys\<close> is never read. A null \<open>ofType\<close> under
  \<open>NON_NULL\<close> or \<open>LIST\<close> makes the unwrapping raise \<open>TypeError\<close>; an object name that
  is no key of \<open>self.objects\<close> raises \<open>KeyError\<close>, after the name was appended.
\<close>

fun materialize_output ::
  "nat \<Rightarrow> (string \<times> object_info) list \<Rightarrow> type_descriptor \<Rightarrow> string list \<Rightarrow> bool
     \<Rightarrow> (exn + string) \<times> string list"
and materialize_output_object_fields ::
  "nat \<Rightarrow> (string \<times> object_info) list \<Rightarrow> string \<Rightarrow> string list \<Rightarrow> (exn + string) \<times> string list"
where
  "materialize_output 0 objects output used include_name = (Inl RecursionError, used)"
| "materialize_output (Suc d) objects output used include_name =
     (if td_kind output = ''OBJECT'' then
        (case materialize_output_object_fields d objects (td_type output) used of
           (Inl e, used') \<Rightarrow> (Inl e, used')
         | (Inr materialized_object_fields, used') \<Rightarrow>
             (Inr (if materialized_object_fields \<noteq> []
                   then (if include_name then td_name output else []) @ '' {''
                          @ materialized_object_fields @ ''},''
                   else []), used'))
      else if td_kind output = ''NON_NULL'' \<or> td_kind output = ''LIST'' then
        (case td_ofType output of
           None \<Rightarrow> (Inl TypeError, used)
         | Some inner \<Rightarrow>
             if td_kind (get_base_oftype inner) = ''SCALAR''
             then (Inr (td_name output @ '', ''), used)
             else
               (case materialize_output d objects (get_base_oftype inner) used False of
                  (Inl e, used') \<Rightarrow> (Inl e, used')
                | (Inr materialized_output, used') \<Rightarrow>
                    (Inr (if materialized_output \<noteq> []
                          then (if include_name then td_name output @ materialized_output @ '', ''
                                else materialized_output)
                          else []), used')))
      else (Inr (if include_name then td_name output @ '', '' else []), used))"
| "materialize_output_object_fields 0 objects object_name used = (Inl RecursionError, used)"
| "materialize_output_object_fields (Suc d) objects object_name used =
     (if MAX_OBJECT_CYCLES \<le> count_list used object_name then (Inr [], used)
      else
        (case map_of objects object_name of
           None \<Rightarrow> (Inl KeyError, used @ [object_name])
         | Some object_info \<Rightarrow>
             materialize_output_fields_loop
               (\<lambda>field used'. materialize_output d objects field used' True)
               (oi_fields object_info) [] (used @ [object_name])))"

text \<open>
  How many more times \<open>materialize_output_object_fields\<close> can get past its cycle check,
  over all the object names of the schema: the measure of the depth bound below.
\<close>

definition cycle_budget :: "(string \<times> object_info) list \<Rightarrow> string list \<Rightarrow> nat" where
  "cycle_budget objects used = (\<Sum>k \<in> fst ` set objects. MAX_OBJECT_CYCLES - count_list used k)"

section \<open>Vocabulary for the output selection\<close>

text \<open>
  The names of the fields of the schema's objects, and of those among them that satisfy a
  test, with the name of the output descriptor itself when it satisfies it; a string
  selects one of a set of names when it has the name followed by \<open>", "\<close>, the way
  \<open>materialize_output\<close> writes a field that has no selection set of its own.
\<close>

definition field_names :: "(string \<times> object_info) list \<Rightarrow> string set" where
  "field_names objects = (\<Union>(k, oi) \<in> set objects. td_name ` set (oi_fields oi))"

definition names_where ::
  "(type_descriptor \<Rightarrow> bool) \<Rightarrow> (string \<times> object_info) list \<Rightarrow> type_descriptor \<Rightarrow> string set" where
  "names_where P objects td =
     (if P td then {td_name td} else {})
     \<union> (\<Union>(k, oi) \<in> set objects. td_name ` set (filter P (oi_fields oi)))"

definition selects :: "string set \<Rightarrow> string \<Rightarrow> bool" where
  "selects names s = (\<exists>n \<in> names. sublist (n @ '', '') s)"

text \<open>
  A field of scalar type: its kind is \<open>SCALAR\<close>, or it is a \<open>NON_NULL\<close> or a \<open>LIST\<close>
  over a base of kind \<open>SCALAR\<close>.
\<close>

definition scalar_field :: "type_descriptor \<Rightarrow> bool" where
  "scalar_field td =
     (if td_kind td = ''SCALAR'' then True
      else if td_kind td = ''NON_NULL'' \<or> td_kind td = ''LIST''
      then (case td_ofType td of None \<Rightarrow> False | Some inner \<Rightarrow> td_kind (get_base_oftype inner) = ''SCALAR'')
      else False)"

text \<open>
  A field that \<open>materialize_output\<close> writes by its bare name: a \<open>NON_NULL\<close> or a \<open>LIST\<close>
  over a base of kind \<open>SCALAR\<close>, or a field of any kind other than \<open>OBJECT\<close>,
  \<open>NON_NULL\<close> and \<open>LIST\<close>, which is a scalar or an enum, and an interface or a union
  as well.
\<close>

definition written_bare :: "type_descriptor \<Rightarrow> bool" where
  "written_bare td =
     (if td_kind td = ''OBJECT'' then False
      else if td_kind td = ''NON_NULL'' \<or> td_kind td = ''LIST''
      then (case td_ofType td of None \<Rightarrow> False | Some inner \<Rightarrow> td_kind (get_base_oftype inner) = ''SCALAR'')
      else True)"

text \<open>
  A name is free of braces, as every GraphQL name is; a string is clean when it has no
  \<open>{}\<close>, does not start with \<open>}\<close> and does not end with \<open>{\<close>.
\<close>

definition brace_free :: "string \<Rightarrow> bool" where
  "brace_free n = (CHR ''{'' \<notin> set n \<and> CHR ''}'' \<notin> set n)"

definition clean :: "string \<Rightarrow> bool" where
  "clean s = (\<not> sublist ''{}'' s \<and> \<not> prefix ''}'' s \<and> \<not> suffix ''{'' s)"

section \<open>Python operations on run-time values\<close>

text \<open>
  The operators the retrier and the engine apply to a response, with the exception each
  raises on a value it does not take. Truth value: \<open>requests.Response\<close> is true when
  its status is no error status.
\<close>

fun py_truthy :: "pyval \<Rightarrow> bool" where
  "py_truthy PNone = False"
| "py_truthy (PBool b) = b"
| "py_truthy (PInt i) = (i \<noteq> 0)"
| "py_truthy (PStr s) = (s \<noteq> [])"
| "py_truthy (PList xs) = (xs \<noteq> [])"
| "py_truthy (PDict d) = (d \<noteq> [])"
| "py_truthy (PTuple xs) = (xs \<noteq> [])"
| "py_truthy (PResponse code) = (\<not> (400 \<le> code \<and> code < 600))"

text \<open>
  \<open>k in v\<close> for a string \<open>k\<close>: a key of a dictionary, an element of a list or a tuple,
  a substring of a string; \<open>TypeError\<close> on a value that is not iterable.
\<close>

fun py_contains :: "string \<Rightarrow> pyval \<Rightarrow> exn + bool" where
  "py_contains k (PDict d) = Inr (k \<in> fst ` set d)"
| "py_contains k (PList xs) = Inr (PStr k \<in> set xs)"
| "py_contains k (PTuple xs) = Inr (PStr k \<in> set xs)"
| "py_contains k (PStr s) = Inr (sublist k s)"
| "py_contains k PNone = Inl TypeError"
| "py_contains k (PBool b) = Inl TypeError"
| "py_contains k (PInt i) = Inl TypeError"
| "py_contains k (PResponse code) = Inl TypeError"

text \<open>\<open>v[k]\<close> for a string \<open>k\<close>: only a dictionary takes a string subscript.\<close>

fun py_getitem :: "pyval \<Rightarrow> string \<Rightarrow> exn + pyval" where
  "py_getitem (PDict d) k = (case map_of d k of None \<Rightarrow> Inl KeyError | Some v \<Rightarrow> Inr v)"
| "py_getitem PNone k = Inl TypeError"
| "py_getitem (PBool b) k = Inl TypeError"
| "py_getitem (PInt i) k = Inl TypeError"
| "py_getitem (PStr s) k = Inl TypeError"
| "py_getitem (PList xs) k = Inl TypeError"
| "py_getitem (PTuple xs) k = Inl TypeError"
| "py_getitem (PResponse code) k = Inl TypeError"

text \<open>\<open>v[0]\<close>. A dictionary of string keys has no key \<open>0\<close>.\<close>

fun py_first :: "pyval \<Rightarrow> exn + pyval" where
  "py_first (PList []) = Inl IndexError"
| "py_first (PList (x # xs)) = Inr x"
| "py_first (PTuple []) = Inl IndexError"
| "py_first (PTuple (x # xs)) = Inr x"
| "py_first (PStr []) = Inl IndexError"
| "py_first (PStr (ch # s)) = Inr (PStr [ch])"
| "py_first (PDict d) = Inl KeyError"
| "py_first PNone = Inl TypeError"
| "py_first (PBool b) = Inl TypeError"
| "py_first (PInt i) = Inl TypeError"
| "py_first (PResponse code) = Inl TypeError"

text \<open>What a \<open>for\<close> loop or an unpacking assignment iterates over.\<close>

fun py_iter :: "pyval \<Rightarrow> exn + pyval list" where
  "py_iter (PList xs) = Inr xs"
| "py_iter (PTuple xs) = Inr xs"
| "py_iter (PDict d) = Inr (map (\<lambda>kv. PStr (fst kv)) d)"
| "py_iter (PStr s) = Inr (map (\<lambda>ch. PStr [ch]) s)"
| "py_iter PNone = Inl TypeError"
| "py_iter (PBool b) = Inl TypeError"
| "py_iter (PInt i) = Inl TypeError"
| "py_iter (PResponse code) = Inl TypeError"

text \<open>\<open>a, b = v\<close>: \<open>ValueError\<close> unless \<open>v\<close> yields exactly two values.\<close>

definition py_unpack2 :: "pyval \<Rightarrow> exn + (pyval \<times> pyval)" where
  "py_unpack2 v =
     (case py_iter v of
        Inl e \<Rightarrow> Inl e
      | Inr xs \<Rightarrow> (case xs of [a, b] \<Rightarrow> Inr (a, b) | _ \<Rightarrow> Inl ValueError))"

text \<open>\<open>v.status_code\<close>: only the response object has the attribute.\<close>

fun py_status_code :: "pyval \<Rightarrow> exn + int" where
  "py_status_code (PResponse code) = Inr code"
| "py_status_code PNone = Inl AttributeError"
| "py_status_code (PBool b) = Inl AttributeError"
| "py_status_code (PInt i) = Inl AttributeError"
| "py_status_code (PStr s) = Inl AttributeError"
| "py_status_code (PList xs) = Inl AttributeError"
| "py_status_code (PDict d) = Inl AttributeError"
| "py_status_code (PTuple xs) = Inl AttributeError"

text \<open>The integer of \<open>v - 1\<close>: a bool is an integer in Python, anything else here is not.\<close>

fun py_int :: "pyval \<Rightarrow> exn + int" where
  "py_int (PInt i) = Inr i"
| "py_int (PBool b) = Inr (if b then 1 else 0)"
| "py_int PNone = Inl TypeError"
| "py_int (PStr s) = Inl TypeError"
| "py_int (PList xs) = Inl TypeError"
| "py_int (PDict d) = Inl TypeError"
| "py_int (PTuple xs) = Inl TypeError"
| "py_int (PResponse code) = Inl TypeError"

section \<open>Collaborators outside the sources\<close>

text \<open>
  Functions of this repository that the retrier and the engine call and the sources do not
  hold, taken as parameters; each may raise. \<open>send_graphql_request\<close> acts on the network,
  whose state is \<open>'net\<close>. \<open>put_in_object_bucket\<close> and \<open>remove_from_object_bucket\<close> give
  the bucket as the call leaves it: the engine keeps the result of the first and calls the
  second for its effect on the dictionary it passes.
\<close>

record 'net collaborators =
  send_graphql_request :: "string \<Rightarrow> string \<Rightarrow> 'net \<Rightarrow> (exn + pyval) \<times> 'net"
  find_block_end :: "string \<Rightarrow> int \<Rightarrow> exn + int"
  remove_lines_within_range :: "string \<Rightarrow> int \<Rightarrow> int \<Rightarrow> exn + string"
  prettify_graphql_payload :: "string \<Rightarrow> string"
  get_output_type :: "string \<Rightarrow> (string \<times> operation_descriptor) list \<Rightarrow> exn + string"
  check_is_data_empty :: "pyval \<Rightarrow> exn + bool"
  put_in_object_bucket :: "objects_bucket \<Rightarrow> string \<Rightarrow> pyval \<Rightarrow> exn + objects_bucket"
  remove_from_object_bucket :: "objects_bucket \<Rightarrow> string \<Rightarrow> pyval \<Rightarrow> exn + objects_bucket"

section \<open>The retrier (src/fuzzer/fengine/retrier/retrier.py)\<close>

definition max_retries :: int where
  "max_retries = 3"

definition NON_NULL_PHRASE :: string where
  "NON_NULL_PHRASE = ''Cannot return null for non-nullable field''"

definition get_new_payload_for_retry_non_null :: "'net collaborators \<Rightarrow> string \<Rightarrow> pyval \<Rightarrow> exn + string" where
  "get_new_payload_for_retry_non_null c payload location =
     (case py_getitem location ''line'' of
        Inl e \<Rightarrow> Inl e
      | Inr line \<Rightarrow>
          (case py_int line of
             Inl e \<Rightarrow> Inl e
           | Inr line_number \<Rightarrow>
               (case find_block_end c payload (line_number - 1) of
                  Inl e \<Rightarrow> Inl e
                | Inr block_end \<Rightarrow> remove_lines_within_range c payload (line_number - 1) block_end)))"

text \<open>The loop of \<open>retry\<close> over the locations of the error.\<close>

fun retry_repair :: "'net collaborators \<Rightarrow> string \<Rightarrow> pyval list \<Rightarrow> exn + string" where
  "retry_repair c payload [] = Inr payload"
| "retry_repair c payload (location # rest) =
     (case get_new_payload_for_retry_non_null c payload location of
        Inl e \<Rightarrow> Inl e
      | Inr new_payload \<Rightarrow> retry_repair c new_payload rest)"

text \<open>
  \<open>retry\<close>, up to the resend: the first error of the response, the test of its message,
  the repair of the payload. \<open>None\<close> is a message without the phrase.
\<close>

definition retry_new_payload :: "'net collaborators \<Rightarrow> string \<Rightarrow> pyval \<Rightarrow> exn + string option" where
  "retry_new_payload c payload response =
     (case py_getitem response ''errors'' of
        Inl e \<Rightarrow> Inl e
      | Inr errors \<Rightarrow>
          (case py_first errors of
             Inl e \<Rightarrow> Inl e
           | Inr error \<Rightarrow>
               (case py_getitem error ''message'' of
                  Inl e \<Rightarrow> Inl e
                | Inr message \<Rightarrow>
                    (case py_contains NON_NULL_PHRASE message of
                       Inl e \<Rightarrow> Inl e
                     | Inr found \<Rightarrow>
                         if found then
                           (case py_getitem error ''locations'' of
                              Inl e \<Rightarrow> Inl e
                            | Inr locations \<Rightarrow>
                                (case py_iter locations of
                                   Inl e \<Rightarrow> Inl e
                                 | Inr locs \<Rightarrow>
                                     (case retry_repair c payload locs of
                                        Inl e \<Rightarrow> Inl e
                                      | Inr new_payload \<Rightarrow> Inr (Some new_payload))))
                         else Inr None))))"

text \<open>
  \<open>Retrier.retry\<close>. It returns the response and whether the retry succeeded, beside the
  network as the resends left it. The recursion is on \<open>retry_count\<close>, which only grows
  towards \<open>max_retries\<close>.
\<close>

function retry ::
  "'net collaborators \<Rightarrow> string \<Rightarrow> string \<Rightarrow> pyval \<Rightarrow> int \<Rightarrow> 'net \<Rightarrow> (exn + (pyval \<times> bool)) \<times> 'net" where
  "retry c url payload response retry_count net =
     (case retry_new_payload c payload response of
        Inl e \<Rightarrow> (Inl e, net)
      | Inr None \<Rightarrow> (Inr (response, False), net)
      | Inr (Some new_payload) \<Rightarrow>
          (case send_graphql_request c url new_payload net of
             (Inl e, net') \<Rightarrow> (Inl e, net')
           | (Inr new_response, net') \<Rightarrow>
               (case py_contains ''errors'' new_response of
                  Inl e \<Rightarrow> (Inl e, net')
                | Inr has_errors \<Rightarrow>
                    if has_errors then
                      (if retry_count < max_retries
                       then retry c url new_payload new_response (retry_count + 1) net'
                       else (Inr (new_response, False), net'))
                    else (Inr (new_response, True), net'))))"
  by pat_completeness auto
termination
  by (relation "measure (\<lambda>(c, url, payload, response, retry_count, net). nat (max_retries - retry_count))")
    auto

declare retry.simps [simp del]

section \<open>The materializer classes (regular_materializer.py, regular_mutation_materializer.py, regular_query_materializer.py)\<close>

text \<open>
  An instance of the materializer, and its constructors. A required positional argument
  that a call leaves out is \<open>None\<close> here, and the call raises \<open>TypeError\<close> before the
  body runs. \<open>RegularMaterializer.__init__\<close> requires \<open>logger\<close>;
  \<open>RegularMutationMaterializer.__init__\<close> takes no logger and calls the base constructor
  with four arguments; \<open>RegularQueryMaterializer.__init__\<close> requires \<open>logger\<close> and hands
  it on.
\<close>

record materializer =
  mat_objects :: "(string \<times> object_info) list"
  mat_operator_info :: "(string \<times> operation_descriptor) list"
  mat_input_objects :: "(string \<times> input_object) list"
  mat_enums :: "(string \<times> string list) list"
  mat_logger :: string

definition RegularMaterializer_init ::
  "(string \<times> object_info) list \<Rightarrow> (string \<times> operation_descriptor) list \<Rightarrow> (string \<times> input_object) list
     \<Rightarrow> (string \<times> string list) list \<Rightarrow> string option \<Rightarrow> exn + materializer" where
  "RegularMaterializer_init objects operator_info input_objects enums logger =
     (case logger of
        None \<Rightarrow> Inl TypeError
      | Some l \<Rightarrow>
          Inr \<lparr>mat_objects = objects, mat_operator_info = operator_info, mat_input_objects = input_objects,
               mat_enums = enums, mat_logger = l @ ''.regular_materializer''\<rparr>)"

definition RegularMutationMaterializer_init ::
  "(string \<times> object_info) list \<Rightarrow> (string \<times> operation_descriptor) list \<Rightarrow> (string \<times> input_object) list
     \<Rightarrow> (string \<times> string list) list \<Rightarrow> exn + materializer" where
  "RegularMutationMaterializer_init objects mutations input_objects enums =
     RegularMaterializer_init objects mutations input_objects enums None"

definition RegularQueryMaterializer_init ::
  "(string \<times> object_info) list \<Rightarrow> (string \<times> operation_descriptor) list \<Rightarrow> (string \<times> input_object) list
     \<Rightarrow> (string \<times> string list) list \<Rightarrow> string option \<Rightarrow> exn + materializer" where
  "RegularQueryMaterializer_init objects queries input_objects enums logger =
     (case logger of
        None \<Rightarrow> Inl TypeError
      | Some l \<Rightarrow> RegularMaterializer_init objects queries input_objects enums (Some l))"

text \<open>
  \<open>RegularMutationMaterializer.get_payload\<close> looks the mutation up and calls
  \<open>materialize_inputs\<close> with the keyword \<open>max_depth\<close>, which \<open>materialize_inputs\<close> does
  not take: \<open>TypeError\<close>.
\<close>

definition RegularMutationMaterializer_get_payload ::
  "materializer \<Rightarrow> string \<Rightarrow> objects_bucket \<Rightarrow> exn + (string \<times> (string \<times> pyval) list)" where
  "RegularMutationMaterializer_get_payload m mutation_name bucket =
     (case map_of (mat_operator_info m) mutation_name of
        None \<Rightarrow> Inl KeyError
      | Some mutation_info \<Rightarrow> Inl TypeError)"

definition newline :: string where
  "newline = [CHR 0x0A]"

text \<open>
  \<open>RegularQueryMaterializer.get_payload\<close>, with the stack allowance \<open>d\<close> of the two
  materializations it calls and the state \<open>st\<close> of the random source.
\<close>

definition RegularQueryMaterializer_get_payload ::
  "nat \<Rightarrow> helpers \<Rightarrow> 'net collaborators \<Rightarrow> materializer \<Rightarrow> string \<Rightarrow> objects_bucket \<Rightarrow> mstate
     \<Rightarrow> exn + (string \<times> (string \<times> pyval) list)" where
  "RegularQueryMaterializer_get_payload d h c m query_name bucket st =
     (case map_of (mat_operator_info m) query_name of
        None \<Rightarrow> Inl KeyError
      | Some query_info \<Rightarrow>
          (case materialize_inputs d h (mat_input_objects m) query_info (op_inputs query_info) bucket
                  (st\<lparr>used_objects := []\<rparr>) of
             (Inl e, st') \<Rightarrow> Inl e
           | (Inr query_inputs, st') \<Rightarrow>
               (case materialize_output d (mat_objects m) (op_output query_info) [] False of
                  (Inl e, used) \<Rightarrow> Inl e
                | (Inr query_outputs, used) \<Rightarrow>
                    Inr (prettify_graphql_payload c
                           (newline @ ''        query {'' @ newline @ ''            '' @ query_name @ '' ''
                              @ (if query_inputs \<noteq> [] then ''('' @ query_inputs @ '')'' else [])
                              @ newline @ ''            '' @ query_outputs @ newline @ ''        }''
                              @ newline @ ''        ''),
                         used_objects st'))))"

section \<open>The engine (src/fuzzer/fengine/fengine.py)\<close>

text \<open>A step of a run either returns from the run or goes on with a value.\<close>

datatype ('r, 'a) flow = Return 'r | Continue 'a

text \<open>
  Lines 82 to 104 of \<open>run_regular_mutation\<close>, the same as lines 165 to 187 of
  \<open>run_regular_query\<close>: from the parsed response to the value of the operation in its
  \<open>data\<close>, or to an early return. The log line before the retry reads
  \<open>graphql_response['errors'][0]\<close>, which \<open>retry\<close> reads first as well, so it raises
  nothing that \<open>retry\<close> would not.
\<close>

definition response_value ::
  "'net collaborators \<Rightarrow> string \<Rightarrow> string \<Rightarrow> string \<Rightarrow> objects_bucket \<Rightarrow> pyval \<Rightarrow> 'net
     \<Rightarrow> (exn + (objects_bucket \<times> bool, pyval) flow) \<times> 'net" where
  "response_value c url operation_name payload bucket graphql_response net =
     (if \<not> py_truthy graphql_response then (Inr (Return (bucket, False)), net)
      else
        (case py_contains ''errors'' graphql_response of
           Inl e \<Rightarrow> (Inl e, net)
         | Inr has_errors \<Rightarrow>
             (case (if has_errors
                    then (case retry c url payload graphql_response 0 net of
                            (Inl e, net') \<Rightarrow> (Inl e, net')
                          | (Inr (retried, retry_success), net') \<Rightarrow>
                              (Inr (if retry_success then Continue retried else Return (bucket, False)), net'))
                    else (Inr (Continue graphql_response), net)) of
                (Inl e, net') \<Rightarrow> (Inl e, net')
              | (Inr (Return r), net') \<Rightarrow> (Inr (Return r), net')
              | (Inr (Continue response), net') \<Rightarrow>
                  (case py_contains ''data'' response of
                     Inl e \<Rightarrow> (Inl e, net')
                   | Inr has_data \<Rightarrow>
                       if \<not> has_data then (Inr (Return (bucket, False)), net')
                       else
                         (case py_getitem response ''data'' of
                            Inl e \<Rightarrow> (Inl e, net')
                          | Inr data \<Rightarrow>
                              (case py_getitem data operation_name of
                                 Inl e \<Rightarrow> (Inl e, net')
                               | Inr v \<Rightarrow>
                                   if v = PNone then (Inr (Return (bucket, NO_DATA_COUNT_AS_SUCCESS)), net')
                                   else
                                     (case check_is_data_empty c data of
                                        Inl e \<Rightarrow> (Inl e, net')
                                      | Inr is_empty \<Rightarrow>
                                          if is_empty then (Inr (Return (bucket, False)), net')
                                          else (Inr (Continue v), net'))))))))"

text \<open>
  Lines 107 to 125 of \<open>run_regular_mutation\<close>: what the value of the mutation does to the
  bucket.
\<close>

definition mutation_bucket_update ::
  "'net collaborators \<Rightarrow> (string \<times> operation_descriptor) list \<Rightarrow> string \<Rightarrow> (string \<times> pyval) list
     \<Rightarrow> objects_bucket \<Rightarrow> pyval \<Rightarrow> exn + objects_bucket" where
  "mutation_bucket_update c mutations mutation_name used bucket v =
     (case v of
        PDict fs \<Rightarrow>
          (case get_output_type c mutation_name mutations of
             Inl e \<Rightarrow> Inl e
           | Inr mutation_output_type \<Rightarrow>
               (case map_of fs ''id'' of
                  None \<Rightarrow> Inr bucket
                | Some returned_id \<Rightarrow>
                    (case map_of mutations mutation_name of
                       None \<Rightarrow> Inl KeyError
                     | Some mutation_info \<Rightarrow>
                         if op_mutationType mutation_info = ''CREATE'' then
                           (if returned_id = PNone then Inr bucket
                            else put_in_object_bucket c bucket mutation_output_type returned_id)
                         else if op_mutationType mutation_info = ''UPDATE'' then Inr bucket
                         else if op_mutationType mutation_info = ''DELETE'' then
                           (case map_of used mutation_output_type of
                              None \<Rightarrow> Inr bucket
                            | Some used_object_value \<Rightarrow>
                                remove_from_object_bucket c bucket mutation_output_type used_object_value)
                         else Inr bucket)))
      | _ \<Rightarrow> Inr bucket)"

text \<open>Lines 189 to 196 of \<open>run_regular_query\<close>.\<close>

definition query_bucket_update ::
  "'net collaborators \<Rightarrow> (string \<times> operation_descriptor) list \<Rightarrow> string
     \<Rightarrow> objects_bucket \<Rightarrow> pyval \<Rightarrow> exn + objects_bucket" where
  "query_bucket_update c queries query_name bucket v =
     (case v of
        PDict fs \<Rightarrow>
          (case get_output_type c query_name queries of
             Inl e \<Rightarrow> Inl e
           | Inr query_output_type \<Rightarrow>
               (case map_of fs ''id'' of
                  None \<Rightarrow> Inr bucket
                | Some returned_id \<Rightarrow>
                    if returned_id = PNone then Inr bucket
                    else put_in_object_bucket c bucket query_output_type returned_id))
      | _ \<Rightarrow> Inr bucket)"

text \<open>
  Lines 72 to 127 of \<open>run_regular_mutation\<close>: send the payload, take the pair apart, read
  the status, interpret the response. The statistics call is left out.
\<close>

definition mutation_send_and_process ::
  "'net collaborators \<Rightarrow> (string \<times> operation_descriptor) list \<Rightarrow> string \<Rightarrow> string \<Rightarrow> string
     \<Rightarrow> (string \<times> pyval) list \<Rightarrow> objects_bucket \<Rightarrow> 'net \<Rightarrow> (exn + objects_bucket \<times> bool) \<times> 'net" where
  "mutation_send_and_process c mutations url mutation_name payload used bucket net =
     (case send_graphql_request c url payload net of
        (Inl e, net') \<Rightarrow> (Inl e, net')
      | (Inr sent, net') \<Rightarrow>
          (case py_unpack2 sent of
             Inl e \<Rightarrow> (Inl e, net')
           | Inr (graphql_response, request_response) \<Rightarrow>
               (case py_status_code request_response of
                  Inl e \<Rightarrow> (Inl e, net')
                | Inr status_code \<Rightarrow>
                    (case response_value c url mutation_name payload bucket graphql_response net' of
                       (Inl e, net'') \<Rightarrow> (Inl e, net'')
                     | (Inr (Return r), net'') \<Rightarrow> (Inr r, net'')
                     | (Inr (Continue v), net'') \<Rightarrow>
                         (case mutation_bucket_update c mutations mutation_name used bucket v of
                            Inl e \<Rightarrow> (Inl e, net'')
                          | Inr new_bucket \<Rightarrow> (Inr (new_bucket, True), net''))))))"

text \<open>Lines 155 to 198 of \<open>run_regular_query\<close>.\<close>

definition query_send_and_process ::
  "'net collaborators \<Rightarrow> (string \<times> operation_descriptor) list \<Rightarrow> string \<Rightarrow> string \<Rightarrow> string
     \<Rightarrow> objects_bucket \<Rightarrow> 'net \<Rightarrow> (exn + objects_bucket \<times> bool) \<times> 'net" where
  "query_send_and_process c queries url query_name payload bucket net =
     (case send_graphql_request c url payload net of
        (Inl e, net') \<Rightarrow> (Inl e, net')
      | (Inr sent, net') \<Rightarrow>
          (case py_unpack2 sent of
             Inl e \<Rightarrow> (Inl e, net')
           | Inr (graphql_response, request_response) \<Rightarrow>
               (case py_status_code request_response of
                  Inl e \<Rightarrow> (Inl e, net')
                | Inr status_code \<Rightarrow>
                    (case response_value c url query_name payload bucket graphql_response net' of
                       (Inl e, net'') \<Rightarrow> (Inl e, net'')
                     | (Inr (Return r), net'') \<Rightarrow> (Inr r, net'')
                     | (Inr (Continue v), net'') \<Rightarrow>
                         (case query_bucket_update c queries query_name bucket v of
                            Inl e \<Rightarrow> (Inl e, net'')
                          | Inr new_bucket \<Rightarrow> (Inr (new_bucket, True), net''))))))"

text \<open>
  The engine: the fields of \<open>FEngine\<close> that the two methods read.
\<close>

record fengine =
  fe_queries :: "(string \<times> operation_descriptor) list"
  fe_objects :: "(string \<times> object_info) list"
  fe_mutations :: "(string \<times> operation_descriptor) list"
  fe_input_objects :: "(string \<times> input_object) list"
  fe_enums :: "(string \<times> string list) list"
  fe_url :: string

text \<open>
  The \<open>try\<close> block of \<open>run_regular_mutation\<close>. The constructor is called with the four
  arguments the source gives it.
\<close>

definition run_regular_mutation_try ::
  "'net collaborators \<Rightarrow> fengine \<Rightarrow> string \<Rightarrow> objects_bucket \<Rightarrow> 'net \<Rightarrow> (exn + objects_bucket \<times> bool) \<times> 'net" where
  "run_regular_mutation_try c self mutation_name bucket net =
     (case RegularMutationMaterializer_init (fe_objects self) (fe_mutations self) (fe_input_objects self)
             (fe_enums self) of
        Inl e \<Rightarrow> (Inl e, net)
      | Inr materializer \<Rightarrow>
          (case RegularMutationMaterializer_get_payload materializer mutation_name bucket of
             Inl e \<Rightarrow> (Inl e, net)
           | Inr (mutation_payload_string, used) \<Rightarrow>
               mutation_send_and_process c (fe_mutations self) (fe_url self) mutation_name
                 mutation_payload_string used bucket net))"

text \<open>
  The \<open>try\<close> block of \<open>run_regular_query\<close>. The source calls the constructor with four
  arguments, so its \<open>logger\<close> is missing.
\<close>

definition run_regular_query_try ::
  "nat \<Rightarrow> helpers \<Rightarrow> mstate \<Rightarrow> 'net collaborators \<Rightarrow> fengine \<Rightarrow> string \<Rightarrow> objects_bucket \<Rightarrow> 'net
     \<Rightarrow> (exn + objects_bucket \<times> bool) \<times> 'net" where
  "run_regular_query_try d h st c self query_name bucket net =
     (case RegularQueryMaterializer_init (fe_objects self) (fe_queries self) (fe_input_objects self)
             (fe_enums self) None of
        Inl e \<Rightarrow> (Inl e, net)
      | Inr materializer \<Rightarrow>
          (case RegularQueryMaterializer_get_payload d h c materializer query_name bucket st of
             Inl e \<Rightarrow> (Inl e, net)
           | Inr (query_payload_string, used) \<Rightarrow>
               query_send_and_process c (fe_queries self) (fe_url self) query_name
                 query_payload_string bucket net))"

text \<open>
  The \<open>except\<close> clauses, in the order of the source. \<open>run_regular_mutation\<close> has a
  clause for \<open>HardDependencyNotMetException\<close>; both re-raise \<open>bdb.BdbQuit\<close> and turn
  every other \<open>Exception\<close> into a failed operation on the bucket the method was given.
\<close>

definition run_regular_mutation_except :: "exn \<Rightarrow> objects_bucket \<Rightarrow> exn + objects_bucket \<times> bool" where
  "run_regular_mutation_except e bucket =
     (case e of
        HardDependencyNotMetException t \<Rightarrow> Inr (bucket, False)
      | BdbQuit \<Rightarrow> Inl BdbQuit
      | _ \<Rightarrow> Inr (bucket, False))"

definition run_regular_query_except :: "exn \<Rightarrow> objects_bucket \<Rightarrow> exn + objects_bucket \<times> bool" where
  "run_regular_query_except e bucket =
     (case e of
        BdbQuit \<Rightarrow> Inl BdbQuit
      | _ \<Rightarrow> Inr (bucket, False))"

text \<open>
  The operation boundary: the outcome of a \<open>try\<close> block under the \<open>except\<close> clauses.
  \<open>Inl\<close> in the result is an exception that leaves the method.
\<close>

definition mutation_boundary ::
  "objects_bucket \<Rightarrow> (exn + objects_bucket \<times> bool) \<times> 'net \<Rightarrow> (exn + objects_bucket \<times> bool) \<times> 'net" where
  "mutation_boundary bucket outcome =
     (case outcome of
        (Inl e, net) \<Rightarrow> (run_regular_mutation_except e bucket, net)
      | (Inr r, net) \<Rightarrow> (Inr r, net))"

definition query_boundary ::
  "objects_bucket \<Rightarrow> (exn + objects_bucket \<times> bool) \<times> 'net \<Rightarrow> (exn + objects_bucket \<times> bool) \<times> 'net" where
  "query_boundary bucket outcome =
     (case outcome of
        (Inl e, net) \<Rightarrow> (run_regular_query_except e bucket, net)
      | (Inr r, net) \<Rightarrow> (Inr r, net))"

definition run_regular_mutation ::
  "'net collaborators \<Rightarrow> fengine \<Rightarrow> string \<Rightarrow> objects_bucket \<Rightarrow> 'net \<Rightarrow> (exn + objects_bucket \<times> bool) \<times> 'net" where
  "run_regular_mutation c self mutation_name bucket net =
     mutation_boundary bucket (run_regular_mutation_try c self mutation_name bucket net)"

definition run_regular_query ::
  "nat \<Rightarrow> helpers \<Rightarrow> mstate \<Rightarrow> 'net collaborators \<Rightarrow> fengine \<Rightarrow> string \<Rightarrow> objects_bucket \<Rightarrow> 'net
     \<Rightarrow> (exn + objects_bucket \<times> bool) \<times> 'net" where
  "run_regular_query d h st c self query_name bucket net =
     query_boundary bucket (run_regular_query_try d h st c self query_name bucket net)"

section \<open>Example schemas\<close>

text \<open>The mutation \<open>deleteUser(id: ID!): User\<close>, its \<open>id\<close> hard-dependent on \<open>User\<close>.\<close>

definition delete_user :: operation_descriptor where
  "delete_user = \<lparr>op_inputs =
       [(''id'', TypeDescriptor ''NON_NULL'' ''id'' [] (Some (TypeDescriptor ''SCALAR'' ''ID'' ''ID'' None)))],
     op_output = TypeDescriptor ''OBJECT'' ''User'' ''User'' None,
     op_hardDependsOn = [(''id'', ''User'')], op_softDependsOn = [], op_mutationType = ''DELETE''\<rparr>"

text \<open>The query \<open>findUser(userId: ID): User\<close>, its \<open>userId\<close> soft-dependent on \<open>User\<close>.\<close>

definition find_user :: operation_descriptor where
  "find_user = \<lparr>op_inputs = [(''userId'', TypeDescriptor ''SCALAR'' ''userId'' ''ID'' None)],
     op_output = TypeDescriptor ''OBJECT'' ''User'' ''User'' None,
     op_hardDependsOn = [], op_softDependsOn = [(''userId'', ''User'')], op_mutationType = ''UNKNOWN''\<rparr>"

text \<open>
  The input object \<open>input Filter { and: Filter }\<close>, which refers to itself, and a query
  \<open>count(filter: Filter): Int\<close> with no dependency.
\<close>

definition filter_input_objects :: "(string \<times> input_object) list" where
  "filter_input_objects =
     [(''Filter'', \<lparr>inputFields = [(''and'', TypeDescriptor ''INPUT_OBJECT'' ''and'' ''Filter'' None)]\<rparr>)]"

definition count_query :: operation_descriptor where
  "count_query = \<lparr>op_inputs = [(''filter'', TypeDescriptor ''INPUT_OBJECT'' ''filter'' ''Filter'' None)],
     op_output = TypeDescriptor ''SCALAR'' ''count'' ''Int'' None,
     op_hardDependsOn = [], op_softDependsOn = [], op_mutationType = ''UNKNOWN''\<rparr>"

text \<open>
  Input objects nested one in the next: the type named by \<open>n + 2\<close> letters \<open>N\<close> has one
  field \<open>child\<close> of the type named by \<open>n + 1\<close> letters, and the type \<open>N\<close> has one
  scalar field \<open>leaf\<close>. A query \<open>count(filter: NNNNNNNNNNNN): Int\<close> over twelve of them,
  and helpers, for the examples only, that draw \<open>7\<close> for every scalar.
\<close>

fun nested_input_objects :: "nat \<Rightarrow> (string \<times> input_object) list" where
  "nested_input_objects 0 =
     [(''N'', \<lparr>inputFields = [(''leaf'', TypeDescriptor ''SCALAR'' ''leaf'' ''Int'' None)]\<rparr>)]"
| "nested_input_objects (Suc n) =
     (replicate (Suc (Suc n)) CHR ''N'',
      \<lparr>inputFields =
         [(''child'', TypeDescriptor ''INPUT_OBJECT'' ''child'' (replicate (Suc n) CHR ''N'') None)]\<rparr>)
     # nested_input_objects n"

definition example_helpers :: helpers where
  "example_helpers =
     \<lparr>get_random_scalar = (\<lambda>input_name scalar_type k. Inr ''7''),
      py_str = (\<lambda>v. case v of PStr s \<Rightarrow> s | _ \<Rightarrow> []),
      rand = (\<lambda>k. 0)\<rparr>"

definition nested_query :: operation_descriptor where
  "nested_query = \<lparr>op_inputs =
       [(''filter'', TypeDescriptor ''INPUT_OBJECT'' ''filter'' (replicate 12 CHR ''N'') None)],
     op_output = TypeDescriptor ''SCALAR'' ''count'' ''Int'' None,
     op_hardDependsOn = [], op_softDependsOn = [], op_mutationType = ''UNKNOWN''\<rparr>"

text \<open>The object \<open>type A { id: ID!, friend: A! }\<close>, which refers to itself.\<close>

definition schema_a :: "(string \<times> object_info) list" where
  "schema_a = [(''A'', \<lparr>oi_fields =
      [TypeDescriptor ''NON_NULL'' ''id'' [] (Some (TypeDescriptor ''SCALAR'' ''ID'' ''ID'' None)),
       TypeDescriptor ''NON_NULL'' ''friend'' [] (Some (TypeDescriptor ''OBJECT'' ''A'' ''A'' None))]\<rparr>)]"

definition output_a :: type_descriptor where
  "output_a = TypeDescriptor ''OBJECT'' ''A'' ''A'' None"

text \<open>The object \<open>type B { self: B! }\<close>, which has no scalar field at all.\<close>

definition schema_b :: "(string \<times> object_info) list" where
  "schema_b = [(''B'', \<lparr>oi_fields =
      [TypeDescriptor ''NON_NULL'' ''self'' [] (Some (TypeDescriptor ''OBJECT'' ''B'' ''B'' None))]\<rparr>)]"

text \<open>
  The object \<open>type Query { search: SearchResult, node: Node }\<close>, where \<open>SearchResult\<close>
  is a union and \<open>Node\<close> an interface.
\<close>

definition schema_search :: "(string \<times> object_info) list" where
  "schema_search = [(''Query'', \<lparr>oi_fields =
      [TypeDescriptor ''UNION'' ''search'' ''SearchResult'' None,
       TypeDescriptor ''INTERFACE'' ''node'' ''Node'' None]\<rparr>)]"

definition output_search :: type_descriptor where
  "output_search = TypeDescriptor ''OBJECT'' ''Query'' ''Query'' None"

section \<open>Example responses and collaborators\<close>

text \<open>
  The server's error for a null in a non-nullable field, as in the retrier's module text,
  with one location.
\<close>

definition null_field_error :: pyval where
  "null_field_error =
     PDict [(''errors'', PList [PDict
       [(''message'', PStr ''Cannot return null for non-nullable field Transaction.payer.''),
        (''locations'', PList [PDict [(''line'', PInt 4), (''column'', PInt 5)]])]])]"

text \<open>An error the retrier does not repair.\<close>

definition syntax_error :: pyval where
  "syntax_error =
     PDict [(''errors'', PList [PDict
       [(''message'', PStr ''Syntax Error: Unexpected Name.''),
        (''locations'', PList [PDict [(''line'', PInt 1), (''column'', PInt 1)]])]])]"

text \<open>
  Stand-ins for the collaborators, for the examples only, around a given transport that
  counts the requests it was sent: the payload repair leaves the payload as it is, the
  output type of an operation is the type of its output descriptor, no data is empty, and
  the bucket helpers append an identifier to the list of its type and remove it from it.
\<close>

definition example_collaborators ::
  "(string \<Rightarrow> string \<Rightarrow> nat \<Rightarrow> (exn + pyval) \<times> nat) \<Rightarrow> nat collaborators" where
  "example_collaborators transport =
     \<lparr>send_graphql_request = transport,
      find_block_end = (\<lambda>payload line. Inr line),
      remove_lines_within_range = (\<lambda>payload first last. Inr payload),
      prettify_graphql_payload = (\<lambda>payload. payload),
      get_output_type = (\<lambda>name operations.
         case map_of operations name of None \<Rightarrow> Inl KeyError | Some info \<Rightarrow> Inr (td_type (op_output info))),
      check_is_data_empty = (\<lambda>data. Inr False),
      put_in_object_bucket = (\<lambda>bucket t v.
         Inr (case map_of bucket t of None \<Rightarrow> bucket @ [(t, [v])] | Some ids \<Rightarrow> AList.update t (ids @ [v]) bucket)),
      remove_from_object_bucket = (\<lambda>bucket t v.
         Inr (case map_of bucket t of None \<Rightarrow> bucket | Some ids \<Rightarrow> AList.update t (removeAll v ids) bucket))\<rparr>"

text \<open>
  The transport as the engine takes it apart, a pair of the parsed response and the
  \<open>requests\<close> response, and a transport that returns the parsed response alone; both
  answer every request with the null-field error.
\<close>

definition pair_transport :: "string \<Rightarrow> string \<Rightarrow> nat \<Rightarrow> (exn + pyval) \<times> nat" where
  "pair_transport url payload n = (Inr (PTuple [null_field_error, PResponse 200]), Suc n)"

definition dict_transport :: "string \<Rightarrow> string \<Rightarrow> nat \<Rightarrow> (exn + pyval) \<times> nat" where
  "dict_transport url payload n = (Inr null_field_error, Suc n)"

text \<open>The mutations \<open>createUser\<close>, \<open>updateUser\<close> and \<open>deleteUser\<close>, and an engine over them.\<close>

definition create_user :: operation_descriptor where
  "create_user = \<lparr>op_inputs = [(''name'', TypeDescriptor ''NON_NULL'' ''name'' []
         (Some (TypeDescriptor ''SCALAR'' ''String'' ''String'' None)))],
     op_output = TypeDescriptor ''OBJECT'' ''User'' ''User'' None,
     op_hardDependsOn = [], op_softDependsOn = [], op_mutationType = ''CREATE''\<rparr>"

definition example_mutations :: "(string \<times> operation_descriptor) list" where
  "example_mutations =
     [(''createUser'', create_user),
      (''updateUser'', create_user\<lparr>op_mutationType := ''UPDATE''\<rparr>),
      (''deleteUser'', delete_user),
      (''touchUser'', create_user\<lparr>op_mutationType := ''UNKNOWN''\<rparr>)]"

definition example_queries :: "(string \<times> operation_descriptor) list" where
  "example_queries = [(''findUser'', find_user)]"

text \<open>A transport that answers every request with the given value of the given operation.\<close>

definition answering :: "string \<Rightarrow> pyval \<Rightarrow> string \<Rightarrow> string \<Rightarrow> nat \<Rightarrow> (exn + pyval) \<times> nat" where
  "answering operation_name v url payload n =
     (Inr (PTuple [PDict [(''data'', PDict [(operation_name, v)])], PResponse 200]), Suc n)"


section \<open>Properties of the dependency resolver\<close>

lemma parse_gql_field_acc:
  "parse_gql_field field (soft, hard) =
     (soft @ fst (field_dependencies field), hard @ snd (field_dependencies field))"
  by (simp add: parse_gql_field_def field_dependencies_def Let_def)

lemma foldl_parse_gql_field:
  "foldl (\<lambda>acc field. parse_gql_field field acc) (soft, hard) fs =
     (soft @ concat (map (fst \<circ> field_dependencies) fs),
      hard @ concat (map (snd \<circ> field_dependencies) fs))"
  by (induction fs arbitrary: soft hard) (simp_all add: parse_gql_field_acc)

lemma resolve_parses_every_object:
  "map fst (resolve objects) = map fst objects"
  "map snd (resolve objects) = map (\<lambda>entry. parse_gql_object (snd entry)) objects"
  by (simp_all add: resolve_def case_prod_beta)

lemma parse_gql_object_lists:
  "obj_softDependsOn (parse_gql_object obj) = concat (map (fst \<circ> field_dependencies) (obj_fields obj))"
  "obj_hardDependsOn (parse_gql_object obj) = concat (map (snd \<circ> field_dependencies) (obj_fields obj))"
  by (simp_all add: parse_gql_object_def Let_def foldl_parse_gql_field)

text \<open>A field adds at most one entry to the two lists together.\<close>

lemma field_dependencies_at_most_one:
  "length (fst (field_dependencies field)) + length (snd (field_dependencies field)) \<le> 1"
  by (simp add: field_dependencies_def parse_gql_field_def Let_def)

text \<open>
  The test against the built-in names works where the entry is the \<open>type\<close> key: a field
  that is neither \<open>NON_NULL\<close> nor \<open>LIST\<close> and has a built-in type name adds nothing.
\<close>

lemma field_dependencies_unwrapped_builtin:
  assumes "fld_kind field \<noteq> ''NON_NULL''" and "fld_kind field \<noteq> ''LIST''"
    and "fld_type field = Some b" and "b \<in> set BUILT_IN_TYPES"
  shows "field_dependencies field = ([], [])"
  using assms by (simp add: field_dependencies_def parse_gql_field_def Let_def)

text \<open>
  It cannot fail where the entry is the \<open>ofType\<close> key: every \<open>NON_NULL\<close> field is a hard
  dependency and every \<open>LIST\<close> field a soft one, whatever the descriptor underneath.
\<close>

lemma field_dependencies_wrapped:
  "fld_kind field = ''NON_NULL'' \<Longrightarrow> field_dependencies field = ([], [Dep_ofType (fld_ofType field)])"
  "fld_kind field = ''LIST'' \<Longrightarrow> field_dependencies field = ([Dep_ofType (fld_ofType field)], [])"
  by (simp_all add: field_dependencies_def parse_gql_field_def Let_def)

text \<open>
  Claim C6, at the input where the code departs from it. For the object \<open>Post\<close>, the
  field \<open>id: ID!\<close> puts the descriptor of the built-in scalar \<open>ID\<close> into
  \<open>hardDependsOn\<close>, beside the descriptor of \<open>User\<close>, and the field \<open>tags: [String]\<close>
  puts the descriptor of the built-in scalar \<open>String\<close> into \<open>softDependsOn\<close>, beside
  the name \<open>Blog\<close>; only \<open>title: String\<close>, whose type is read from the \<open>type\<close> key,
  is left out.
\<close>

theorem parse_gql_object_builtin_scalar_dependencies:
  "obj_hardDependsOn (parse_gql_object example_post)
     = [Dep_ofType (Some (TypeDescriptor ''SCALAR'' ''ID'' ''ID'' None)),
        Dep_ofType (Some (TypeDescriptor ''OBJECT'' ''User'' ''User'' None))]
   \<and> obj_softDependsOn (parse_gql_object example_post)
     = [Dep_ofType (Some (TypeDescriptor ''SCALAR'' ''String'' ''String'' None)),
        Dep_type (Some ''Blog'')]"
  by (simp add: parse_gql_object_def example_post_def parse_gql_field_def Let_def
      BUILT_IN_TYPES_def BUILT_IN_TYPE_KINDS_def)

section \<open>Input materialization\<close>

text \<open>
  A hard dependency on a type that is no key of the bucket, and is not \<open>UNKNOWN\<close>, raises
  \<open>HardDependencyNotMetException\<close> and leaves the state as it was.
\<close>

lemma materialize_input_field_hard_dependency_unmet:
  assumes "map_of (op_hardDependsOn operator_info) (td_name input_field) = Some t"
    and "map_of bucket t = None" and "t \<noteq> ''UNKNOWN''"
  shows "materialize_input_field (Suc d) h input_objects operator_info input_field bucket True st
         = (Inl (HardDependencyNotMetException t), st)"
  using assms by simp

text \<open>
  A hard dependency on \<open>UNKNOWN\<close>, with no such key in the bucket, is the materialization
  of the same field with the dependencies not consulted.
\<close>

lemma materialize_input_field_unknown_falls_back:
  assumes "map_of (op_hardDependsOn operator_info) (td_name input_field) = Some ''UNKNOWN''"
    and "map_of bucket ''UNKNOWN'' = None"
  shows "materialize_input_field (Suc d) h input_objects operator_info input_field bucket True st
         = materialize_input_field d h input_objects operator_info input_field bucket False st"
  using assms by simp

text \<open>
  A hard dependency on a type that is a key of the bucket with an empty list of
  identifiers: \<open>random.choice\<close> raises \<open>IndexError\<close>.
\<close>

lemma materialize_input_field_hard_dependency_empty_list:
  assumes "map_of (op_hardDependsOn operator_info) (td_name input_field) = Some t"
    and "map_of bucket t = Some []"
  shows "materialize_input_field (Suc d) h input_objects operator_info input_field bucket True st
         = (Inl IndexError, st)"
  using assms by (simp add: random_choice_def)

text \<open>
  Claim C1, at the input where the code departs from it. \<open>deleteUser\<close> has its \<open>id\<close>
  hard-dependent on \<open>User\<close>, and the bucket holds \<open>User\<close> with no identifier left:
  materializing the inputs raises \<open>IndexError\<close>, not \<open>HardDependencyNotMetException\<close>,
  whatever the helpers, the stack allowance beyond two frames and the state.
\<close>

theorem materialize_inputs_no_live_identifier_IndexError:
  "materialize_inputs (Suc (Suc d)) h input_objects delete_user (op_inputs delete_user)
     [(''User'', [])] st = (Inl IndexError, st)"
  by (simp add: delete_user_def random_choice_def)

text \<open>
  A field with a soft dependency only, on a type that is a key of the bucket: the branch
  reads \<open>hard_dependency_name\<close>, a local that only the hard-dependency branch assigns, so
  the call raises \<open>UnboundLocalError\<close>.
\<close>

lemma materialize_input_field_soft_dependency_in_bucket:
  assumes "map_of (op_hardDependsOn operator_info) (td_name input_field) = None"
    and "map_of (op_softDependsOn operator_info) (td_name input_field) = Some t"
    and "map_of bucket t = Some ids"
  shows "materialize_input_field (Suc d) h input_objects operator_info input_field bucket True st
         = (Inl UnboundLocalError, st)"
  using assms by simp

lemma materialize_input_field_soft_dependency_not_in_bucket:
  assumes "map_of (op_hardDependsOn operator_info) (td_name input_field) = None"
    and "map_of (op_softDependsOn operator_info) (td_name input_field) = Some t"
    and "map_of bucket t = None"
  shows "materialize_input_field (Suc d) h input_objects operator_info input_field bucket True st
         = materialize_input_field d h input_objects operator_info input_field bucket False st"
  using assms by simp

text \<open>
  Claim C4, at the input where the code departs from it. \<open>findUser\<close> has its \<open>userId\<close>
  soft-dependent on \<open>User\<close>, and the bucket holds the identifier \<open>u1\<close> for \<open>User\<close>:
  materializing the inputs raises \<open>UnboundLocalError\<close> instead of using \<open>u1\<close>.
\<close>

theorem materialize_inputs_soft_dependency_UnboundLocalError:
  "materialize_inputs (Suc (Suc d)) h input_objects find_user (op_inputs find_user)
     [(''User'', [PStr ''u1''])] st = (Inl UnboundLocalError, st)"
  by (simp add: find_user_def)

lemma materialize_filter_exhausts_stack:
  "materialize_input_field d h filter_input_objects count_query
       (TypeDescriptor ''INPUT_OBJECT'' n ''Filter'' None) bucket c st = (Inl RecursionError, st)
   \<and> materialize_inputs d h filter_input_objects count_query
       [(''and'', TypeDescriptor ''INPUT_OBJECT'' ''and'' ''Filter'' None)] bucket st
       = (Inl RecursionError, st)"
proof (induction d arbitrary: n c st rule: less_induct)
  case (less d)
  show ?case
  proof (cases d)
    case 0
    then show ?thesis by simp
  next
    case (Suc d')
    have inputs: "materialize_inputs d h filter_input_objects count_query
        [(''and'', TypeDescriptor ''INPUT_OBJECT'' ''and'' ''Filter'' None)] bucket st
        = (Inl RecursionError, st)"
      using less.IH[of d'] Suc by simp
    have field: "materialize_input_field d h filter_input_objects count_query
        (TypeDescriptor ''INPUT_OBJECT'' n ''Filter'' None) bucket c st = (Inl RecursionError, st)"
      using less.IH[of d'] Suc by (simp add: count_query_def filter_input_objects_def)
    from inputs field show ?thesis by simp
  qed
qed

text \<open>
  Input objects nested twelve deep, two more than \<open>MAX_INPUT_DEPTH\<close>, are materialized in
  full when the interpreter allows the frames.
\<close>

lemma materialize_inputs_nested_twelve:
  "materialize_inputs 30 example_helpers (nested_input_objects 11) nested_query (op_inputs nested_query) []
     \<lparr>used_objects = [], draws = 0\<rparr>
   = (Inr ''filter: {child: {child: {child: {child: {child: {child: {child: {child: {child: {child: {child: {leaf: 7,},},},},},},},},},},},},'',
      \<lparr>used_objects = [], draws = 1\<rparr>)"
  by (simp add: eval_nat_numeral nested_query_def example_helpers_def)

text \<open>
  Claim C10, at the inputs where the code departs from it. For the self-referential input
  object \<open>Filter\<close>, materializing the inputs of \<open>count\<close> ends in \<open>RecursionError\<close> for
  every number \<open>d\<close> of stack frames the interpreter allows: the recursion uses up whatever
  depth it is given, and no depth of ten stops it. And input objects nested twelve deep
  are not treated as unresolvable: thirty frames materialize all twelve levels.
\<close>

theorem materialize_inputs_no_depth_bound:
  "materialize_inputs d h filter_input_objects count_query (op_inputs count_query) bucket st
     = (Inl RecursionError, st)
   \<and> MAX_INPUT_DEPTH < 12
   \<and> fst (materialize_inputs 30 example_helpers (nested_input_objects 11) nested_query
          (op_inputs nested_query) [] \<lparr>used_objects = [], draws = 0\<rparr>)
       = Inr ''filter: {child: {child: {child: {child: {child: {child: {child: {child: {child: {child: {child: {leaf: 7,},},},},},},},},},},},},''"
proof -
  have "materialize_inputs d h filter_input_objects count_query (op_inputs count_query) bucket st
     = (Inl RecursionError, st)"
  proof (cases d)
    case 0
    then show ?thesis by simp
  next
    case (Suc d')
    then show ?thesis
      using materialize_filter_exhausts_stack[of d' h "''filter''" bucket True st]
      by (simp add: count_query_def)
  qed
  then show ?thesis
    by (simp add: materialize_inputs_nested_twelve MAX_INPUT_DEPTH_def)
qed

section \<open>The cycle bound of output materialization\<close>

lemma fields_loop_prefix:
  assumes "\<And>field u. prefix u (snd (f field u))"
  shows "prefix used (snd (materialize_output_fields_loop f fs built used))"
proof (induction fs arbitrary: built used)
  case Nil
  then show ?case by simp
next
  case (Cons field rest)
  obtain r u where fu: "f field used = (r, u)" by (cases "f field used")
  have pu: "prefix used u" using assms[of used field] fu by simp
  show ?case
  proof (cases r)
    case (Inl e)
    then show ?thesis using fu pu by simp
  next
    case (Inr out)
    then show ?thesis using fu pu Cons.IH prefix_order.trans by simp blast
  qed
qed

lemma materialize_output_prefix_aux:
  "(\<forall>output used incl. prefix used (snd (materialize_output d objects output used incl)))
   \<and> (\<forall>object_name used. prefix used (snd (materialize_output_object_fields d objects object_name used)))"
proof (induction d)
  case 0
  then show ?case by simp
next
  case (Suc d)
  have fields: "prefix used (snd (materialize_output_object_fields (Suc d) objects object_name used))"
    for object_name used
  proof (cases "map_of objects object_name")
    case None
    then show ?thesis by simp
  next
    case (Some object_info)
    have "prefix (used @ [object_name])
            (snd (materialize_output_fields_loop (\<lambda>field used'. materialize_output d objects field used' True)
                    (oi_fields object_info) [] (used @ [object_name])))"
      by (rule fields_loop_prefix) (simp add: Suc.IH)
    then have "prefix used
            (snd (materialize_output_fields_loop (\<lambda>field used'. materialize_output d objects field used' True)
                    (oi_fields object_info) [] (used @ [object_name])))"
      using append_prefixD by blast
    then show ?thesis using Some by simp
  qed
  have out: "prefix used (snd (materialize_output (Suc d) objects td used incl))"
    for td used incl
  proof -
    have f: "prefix used (snd (materialize_output_object_fields d objects (td_type td) used))"
      using Suc.IH by blast
    show ?thesis
    proof (cases "td_ofType td")
      case None
      then show ?thesis using f by (auto split: prod.splits sum.splits)
    next
      case (Some inner)
      have g: "prefix used (snd (materialize_output d objects (get_base_oftype inner) used False))"
        using Suc.IH by blast
      show ?thesis using f g Some by (auto split: prod.splits sum.splits)
    qed
  qed
  show ?case using fields out by blast
qed

lemma materialize_output_prefix:
  "prefix used (snd (materialize_output d objects output used incl))"
  using materialize_output_prefix_aux by blast

lemma count_list_prefix: "prefix u u' \<Longrightarrow> count_list u k \<le> count_list u' k"
  by (auto simp add: prefix_def)

lemma cycle_budget_prefix: "prefix u u' \<Longrightarrow> cycle_budget objects u' \<le> cycle_budget objects u"
  unfolding cycle_budget_def
  by (rule sum_mono) (simp add: count_list_prefix diff_le_mono2)

lemma cycle_budget_enter:
  assumes "map_of objects k = Some oi" and "count_list used k < MAX_OBJECT_CYCLES"
  shows "Suc (cycle_budget objects (used @ [k])) \<le> cycle_budget objects used"
proof -
  have "k \<in> dom (map_of objects)" using assms(1) by blast
  then have kin: "k \<in> fst ` set objects" by (simp add: dom_map_of_conv_image_fst)
  have fin: "finite (fst ` set objects)" by simp
  have "cycle_budget objects (used @ [k]) < cycle_budget objects used"
    unfolding cycle_budget_def
  proof (rule sum_strict_mono_ex1[OF fin])
    show "\<forall>x\<in>fst ` set objects. MAX_OBJECT_CYCLES - count_list (used @ [k]) x \<le> MAX_OBJECT_CYCLES - count_list used x"
      by (simp add: diff_le_mono2)
    show "\<exists>a\<in>fst ` set objects. MAX_OBJECT_CYCLES - count_list (used @ [k]) a < MAX_OBJECT_CYCLES - count_list used a"
      using kin assms(2) by (intro bexI[of _ k]) auto
  qed
  then show ?thesis by simp
qed

lemma cycle_budget_le: "cycle_budget objects used \<le> MAX_OBJECT_CYCLES * length objects"
proof -
  have "cycle_budget objects used \<le> (\<Sum>k \<in> fst ` set objects. MAX_OBJECT_CYCLES)"
    unfolding cycle_budget_def by (rule sum_mono) simp
  also have "\<dots> = card (fst ` set objects) * MAX_OBJECT_CYCLES" by simp
  also have "\<dots> \<le> length objects * MAX_OBJECT_CYCLES"
    by (meson card_image_le card_length le_trans mult_le_mono1 List.finite_set)
  finally show ?thesis by (simp add: mult.commute)
qed

lemma fields_loop_no_recursion_error:
  assumes "\<And>field u. prefix used0 u \<Longrightarrow> fst (f field u) \<noteq> Inl RecursionError"
    and "\<And>field u. prefix u (snd (f field u))"
    and "prefix used0 used"
  shows "fst (materialize_output_fields_loop f fs built used) \<noteq> Inl RecursionError"
  using assms(3)
proof (induction fs arbitrary: built used)
  case Nil
  then show ?case by simp
next
  case (Cons field rest)
  obtain r u where fu: "f field used = (r, u)" by (cases "f field used")
  have pu: "prefix used u" using assms(2)[of used field] fu by simp
  have ne: "r \<noteq> Inl RecursionError" using assms(1)[OF Cons.prems, of field] fu by simp
  show ?case
  proof (cases r)
    case (Inl e)
    then show ?thesis using fu ne by simp
  next
    case (Inr out)
    have "prefix used0 u" using Cons.prems pu by (rule prefix_order.trans)
    then show ?thesis using fu Inr Cons.IH by simp
  qed
qed

lemma get_base_oftype_no_ofType: "td_ofType (get_base_oftype t) = None"
  by (induction t rule: get_base_oftype.induct) simp_all

lemma materialize_output_depth_aux:
  "(\<forall>output used incl. td_ofType output = None \<and> 3 * cycle_budget objects used + 2 \<le> d
       \<longrightarrow> fst (materialize_output d objects output used incl) \<noteq> Inl RecursionError)
   \<and> (\<forall>output used incl. 3 * cycle_budget objects used + 3 \<le> d
       \<longrightarrow> fst (materialize_output d objects output used incl) \<noteq> Inl RecursionError)
   \<and> (\<forall>object_name used. 3 * cycle_budget objects used + 1 \<le> d
       \<longrightarrow> fst (materialize_output_object_fields d objects object_name used) \<noteq> Inl RecursionError)"
proof (induction d)
  case 0
  then show ?case by simp
next
  case (Suc d)
  have ih_base: "td_ofType td = None \<Longrightarrow> 3 * cycle_budget objects used + 2 \<le> d
       \<Longrightarrow> fst (materialize_output d objects td used incl) \<noteq> Inl RecursionError" for td used incl
    using Suc.IH by blast
  have ih_any: "3 * cycle_budget objects used + 3 \<le> d
       \<Longrightarrow> fst (materialize_output d objects td used incl) \<noteq> Inl RecursionError" for td used incl
    using Suc.IH by blast
  have ih_fields: "3 * cycle_budget objects used + 1 \<le> d
       \<Longrightarrow> fst (materialize_output_object_fields d objects object_name used) \<noteq> Inl RecursionError" for object_name used
    using Suc.IH by blast
  have fields: "fst (materialize_output_object_fields (Suc d) objects object_name used) \<noteq> Inl RecursionError"
    if b: "3 * cycle_budget objects used + 1 \<le> Suc d" for object_name used
  proof (cases "MAX_OBJECT_CYCLES \<le> count_list used object_name")
    case True
    then show ?thesis by simp
  next
    case False
    show ?thesis
    proof (cases "map_of objects object_name")
      case None
      then show ?thesis using False by simp
    next
      case (Some object_info)
      have enter: "Suc (cycle_budget objects (used @ [object_name])) \<le> cycle_budget objects used"
        using cycle_budget_enter[OF Some] False by simp
      have "fst (materialize_output_fields_loop (\<lambda>field used'. materialize_output d objects field used' True)
                    (oi_fields object_info) [] (used @ [object_name])) \<noteq> Inl RecursionError"
      proof (rule fields_loop_no_recursion_error[where ?used0.0 = "used @ [object_name]"])
        fix field u
        assume "prefix (used @ [object_name]) u"
        then have "cycle_budget objects u \<le> cycle_budget objects (used @ [object_name])"
          by (rule cycle_budget_prefix)
        then have "3 * cycle_budget objects u + 3 \<le> d" using enter b by linarith
        then show "fst (materialize_output d objects field u True) \<noteq> Inl RecursionError"
          by (rule ih_any)
      next
        fix field u
        show "prefix u (snd (materialize_output d objects field u True))"
          by (rule materialize_output_prefix)
      next
        show "prefix (used @ [object_name]) (used @ [object_name])" by simp
      qed
      then show ?thesis using False Some by simp
    qed
  qed
  have out_any: "fst (materialize_output (Suc d) objects td used incl) \<noteq> Inl RecursionError"
    if b: "3 * cycle_budget objects used + 3 \<le> Suc d" for td used incl
  proof -
    have f: "fst (materialize_output_object_fields d objects (td_type td) used) \<noteq> Inl RecursionError"
      using b by (intro ih_fields) linarith
    show ?thesis
    proof (cases "td_ofType td")
      case None
      then show ?thesis using f by (auto split: prod.splits sum.splits)
    next
      case (Some inner)
      have g: "fst (materialize_output d objects (get_base_oftype inner) used False) \<noteq> Inl RecursionError"
        using b by (intro ih_base get_base_oftype_no_ofType) linarith
      show ?thesis using f g Some by (auto split: prod.splits sum.splits)
    qed
  qed
  have out_base: "fst (materialize_output (Suc d) objects td used incl) \<noteq> Inl RecursionError"
    if n: "td_ofType td = None" and b: "3 * cycle_budget objects used + 2 \<le> Suc d" for td used incl
  proof -
    have f: "fst (materialize_output_object_fields d objects (td_type td) used) \<noteq> Inl RecursionError"
      using b by (intro ih_fields) linarith
    show ?thesis using f n
      by (auto split: prod.splits sum.splits option.splits)
  qed
  show ?case using fields out_any out_base by blast
qed

lemma materialize_output_terminates:
  assumes "3 * (MAX_OBJECT_CYCLES * length objects) + 3 \<le> d"
  shows "fst (materialize_output d objects output used incl) \<noteq> Inl RecursionError"
proof -
  have "3 * cycle_budget objects used + 3 \<le> d"
    using assms cycle_budget_le[of objects used] by linarith
  then show ?thesis using materialize_output_depth_aux by blast
qed

lemma materialize_output_object_fields_stops:
  assumes "MAX_OBJECT_CYCLES \<le> count_list used object_name"
  shows "materialize_output_object_fields (Suc d) objects object_name used = (Inr [], used)"
  using assms by simp

lemma materialize_output_object_stops:
  assumes "td_kind td = ''OBJECT''" and "MAX_OBJECT_CYCLES \<le> count_list used (td_type td)"
  shows "materialize_output (Suc (Suc d)) objects td used include_name = (Inr [], used)"
  using assms by simp

text \<open>
  Claim C5. The list of used objects holds every object type the materialization has
  entered so far, the ones on the current selection path among them, and it only grows
  (second part below). Once a type stands in it \<open>MAX_OBJECT_CYCLES\<close> times,
  \<open>materialize_output_object_fields\<close> returns the empty string and leaves the list as it
  is, and \<open>materialize_output\<close> on an \<open>OBJECT\<close> of that type adds nothing, not even the
  field name (first part). So the depth of the recursion is bounded by the cycle bound
  alone: for every schema and every output descriptor, a stack allowance of
  \<open>3 * MAX_OBJECT_CYCLES * length objects + 3\<close> frames is enough for
  \<open>materialize_output\<close> to return without a \<open>RecursionError\<close>, self-referential and
  mutually referential objects included (third part).
\<close>

theorem materialize_output_cycle_bound:
  "(MAX_OBJECT_CYCLES \<le> count_list used object_name \<longrightarrow>
      materialize_output_object_fields (Suc d) objects object_name used = (Inr [], used)
      \<and> (td_kind td = ''OBJECT'' \<and> td_type td = object_name \<longrightarrow>
           materialize_output (Suc (Suc d)) objects td used include_name = (Inr [], used)))
   \<and> prefix used (snd (materialize_output d objects td used include_name))
   \<and> (3 * (MAX_OBJECT_CYCLES * length objects) + 3 \<le> d \<longrightarrow>
        fst (materialize_output d objects td used include_name) \<noteq> Inl RecursionError)"
  using materialize_output_object_fields_stops[of used object_name d objects]
    materialize_output_object_stops[of td used d objects include_name]
    materialize_output_prefix[of used d objects td include_name]
    materialize_output_terminates[of objects d td used include_name]
  by blast

lemma materialize_output_schema_a:
  "materialize_output 9 schema_a output_a [] False = (Inr '' {id, friend {id, },, },'', [''A'', ''A''])"
  by (simp add: eval_nat_numeral schema_a_def output_a_def MAX_OBJECT_CYCLES_def)

theorem materialize_output_cycle_bound_witness:
  "MAX_OBJECT_CYCLES \<le> count_list [''A'', ''A''] ''A''
   \<and> materialize_output_object_fields (Suc 0) schema_a ''A'' [''A'', ''A''] = (Inr [], [''A'', ''A''])
   \<and> td_kind output_a = ''OBJECT'' \<and> td_type output_a = ''A''
   \<and> materialize_output (Suc (Suc 0)) schema_a output_a [''A'', ''A''] True = (Inr [], [''A'', ''A''])
   \<and> 3 * (MAX_OBJECT_CYCLES * length schema_a) + 3 \<le> 9
   \<and> materialize_output 9 schema_a output_a [] False
       = (Inr '' {id, friend {id, },, },'', [''A'', ''A''])
   \<and> fst (materialize_output 9 schema_a output_a [] False) \<noteq> Inl RecursionError"
  using materialize_output_cycle_bound[of "[''A'', ''A'']" "''A''" 0 schema_a output_a True]
    materialize_output_cycle_bound[of "[]" "''A''" 9 schema_a output_a False]
    materialize_output_schema_a
  by (simp add: schema_a_def output_a_def MAX_OBJECT_CYCLES_def)

section \<open>The selection sets of output materialization\<close>

lemma selects_mono: "selects N s \<Longrightarrow> N \<subseteq> M \<Longrightarrow> selects M s"
  by (auto simp add: selects_def)

lemma selects_append: "selects N a \<or> selects N b \<Longrightarrow> selects N (a @ b)"
  by (auto simp add: selects_def sublist_append)

lemma selects_self: "n \<in> N \<Longrightarrow> selects N (n @ '', '')"
  unfolding selects_def by (intro bexI[of _ n]) simp_all

lemma selects_Cons: "selects N s \<Longrightarrow> selects N (c # s)"
  by (auto simp add: selects_def sublist_Cons_right)

lemma fields_loop_selects:
  assumes "\<And>field u s u'. field \<in> set fs \<Longrightarrow> f field u = (Inr s, u') \<Longrightarrow> s = [] \<or> selects N s"
    and "built = [] \<or> selects N built"
    and "materialize_output_fields_loop f fs built used = (Inr s, u')"
  shows "s = [] \<or> selects N s"
  using assms
proof (induction fs arbitrary: built used)
  case Nil
  then show ?case by simp
next
  case (Cons field rest)
  obtain r u where fu: "f field used = (r, u)" by (cases "f field used")
  show ?case
  proof (cases r)
    case (Inl e)
    then show ?thesis using fu Cons.prems(3) by simp
  next
    case (Inr out)
    have o: "out = [] \<or> selects N out" using Cons.prems(1)[of field used out u] fu Inr by simp
    let ?b = "if out \<noteq> [] \<and> out \<noteq> ''{}'' then built @ out else built"
    have b: "?b = [] \<or> selects N ?b" using o Cons.prems(2) selects_append[of N built out] by auto
    have l: "materialize_output_fields_loop f rest ?b u = (Inr s, u')"
      using Cons.prems(3) fu Inr by simp
    show ?thesis
      by (rule Cons.IH[OF _ b l]) (use Cons.prems(1) in auto)
  qed
qed

lemma materialize_output_selects_aux:
  "(\<forall>td used incl s u. materialize_output d objects td used incl = (Inr s, u)
       \<longrightarrow> s = [] \<or> selects (names_where written_bare objects td) s)
   \<and> (\<forall>td used s u. td_ofType td = None \<and> materialize_output d objects td used False = (Inr s, u)
       \<longrightarrow> s = [] \<or> selects (\<Union>(k, oi) \<in> set objects. td_name ` set (filter written_bare (oi_fields oi))) s)
   \<and> (\<forall>object_name used s u. materialize_output_object_fields d objects object_name used = (Inr s, u)
       \<longrightarrow> s = [] \<or> selects (\<Union>(k, oi) \<in> set objects. td_name ` set (filter written_bare (oi_fields oi))) s)"
proof (induction d)
  case 0
  then show ?case by simp
next
  case (Suc d)
  let ?N = "\<Union>(k, oi) \<in> set objects. td_name ` set (filter written_bare (oi_fields oi))"
  have ih_any: "materialize_output d objects td used incl = (Inr s, u)
       \<Longrightarrow> s = [] \<or> selects (names_where written_bare objects td) s" for td used incl s u
    using Suc.IH by blast
  have ih_base: "td_ofType td = None \<Longrightarrow> materialize_output d objects td used False = (Inr s, u)
       \<Longrightarrow> s = [] \<or> selects ?N s" for td used s u
    using Suc.IH by blast
  have ih_fields: "materialize_output_object_fields d objects object_name used = (Inr s, u)
       \<Longrightarrow> s = [] \<or> selects ?N s" for object_name used s u
    using Suc.IH by blast
  have fields: "s = [] \<or> selects ?N s"
    if eq: "materialize_output_object_fields (Suc d) objects object_name used = (Inr s, u)"
    for object_name used s u
  proof (cases "MAX_OBJECT_CYCLES \<le> count_list used object_name")
    case True
    then show ?thesis using eq by simp
  next
    case False
    show ?thesis
    proof (cases "map_of objects object_name")
      case None
      then show ?thesis using False eq by simp
    next
      case (Some object_info)
      have l: "materialize_output_fields_loop (\<lambda>field used'. materialize_output d objects field used' True)
                    (oi_fields object_info) [] (used @ [object_name]) = (Inr s, u)"
        using eq False Some by simp
      show ?thesis
      proof (rule fields_loop_selects[OF _ _ l])
        fix field u0 s0 u1
        assume fin: "field \<in> set (oi_fields object_info)"
          and m: "materialize_output d objects field u0 True = (Inr s0, u1)"
        have "s0 = [] \<or> selects (names_where written_bare objects field) s0" using m by (rule ih_any)
        moreover have "names_where written_bare objects field \<subseteq> ?N"
          using fin map_of_SomeD[OF Some] by (auto simp add: names_where_def)
        ultimately show "s0 = [] \<or> selects ?N s0" using selects_mono by blast
      qed simp
    qed
  qed
  have block: "selects M (pre @ '' {'' @ fs @ ''},'')" if "selects M fs" for M pre fs
    using that selects_append[of M "pre @ '' {''" "fs @ ''},''"] selects_append[of M fs "''},''"]
    by simp
  have out_base: "s = [] \<or> selects ?N s"
    if n: "td_ofType td = None" and eq: "materialize_output (Suc d) objects td used False = (Inr s, u)"
    for td used s u
  proof (cases "materialize_output_object_fields d objects (td_type td) used")
    case (Pair r u')
    show ?thesis
    proof (cases r)
      case (Inl e)
      then show ?thesis using eq n Pair by (auto split: if_splits)
    next
      case (Inr fs)
      have "fs = [] \<or> selects ?N fs" using ih_fields Pair Inr by blast
      then show ?thesis using eq n Pair Inr block[of ?N fs "[]"] by (auto split: if_splits)
    qed
  qed
  have out_any: "s = [] \<or> selects (names_where written_bare objects td) s"
    if eq: "materialize_output (Suc d) objects td used incl = (Inr s, u)"
    for td used incl s u
  proof -
    let ?M = "names_where written_bare objects td"
    have sub: "?N \<subseteq> ?M" by (auto simp add: names_where_def)
    have self: "written_bare td \<Longrightarrow> selects ?M (td_name td @ '', '')"
      by (rule selects_self) (simp add: names_where_def)
    consider (obj) "td_kind td = ''OBJECT''"
      | (wrap) "td_kind td \<noteq> ''OBJECT''" "td_kind td = ''NON_NULL'' \<or> td_kind td = ''LIST''"
      | (other) "td_kind td \<noteq> ''OBJECT''" "td_kind td \<noteq> ''NON_NULL''" "td_kind td \<noteq> ''LIST''"
      by blast
    then show ?thesis
    proof cases
      case obj
      obtain r u' where p: "materialize_output_object_fields d objects (td_type td) used = (r, u')"
        by (cases "materialize_output_object_fields d objects (td_type td) used")
      show ?thesis
      proof (cases r)
        case (Inl e)
        then show ?thesis using eq obj p by simp
      next
        case (Inr fs)
        have "fs = [] \<or> selects ?N fs" using ih_fields p Inr by blast
        then have "fs = [] \<or> selects ?M fs" using selects_mono sub by blast
        then show ?thesis using eq obj p Inr block[of ?M fs "[]"] block[of ?M fs "td_name td"]
          by (auto split: if_splits)
      qed
    next
      case wrap
      show ?thesis
      proof (cases "td_ofType td")
        case None
        then show ?thesis using eq wrap by auto
      next
        case (Some inner)
        show ?thesis
        proof (cases "td_kind (get_base_oftype inner) = ''SCALAR''")
          case True
          then have "written_bare td" using wrap Some by (auto simp add: written_bare_def)
          then show ?thesis using True eq wrap Some self by auto
        next
          case False
          obtain r u' where p: "materialize_output d objects (get_base_oftype inner) used False = (r, u')"
            by (cases "materialize_output d objects (get_base_oftype inner) used False")
          show ?thesis
          proof (cases r)
            case (Inl e)
            then show ?thesis using eq wrap Some False p by auto
          next
            case (Inr m)
            have "m = [] \<or> selects ?N m"
              using ih_base[OF get_base_oftype_no_ofType] p Inr by blast
            then have m: "m = [] \<or> selects ?M m" using selects_mono sub by blast
            have "selects ?M m \<Longrightarrow> selects ?M (td_name td @ m @ '', '')"
              using selects_append[of ?M "td_name td" "m @ '', ''"] selects_append[of ?M m "'', ''"] by simp
            then show ?thesis using eq wrap Some False p Inr m by (auto split: if_splits)
          qed
        qed
      qed
    next
      case other
      then have "written_bare td" by (simp add: written_bare_def)
      then show ?thesis using other eq self by (auto split: if_splits)
    qed
  qed
  show ?case using fields out_any out_base by blast
qed

lemma empty_block_append:
  assumes "sublist ''{}'' (a @ b)"
  shows "sublist ''{}'' a \<or> sublist ''{}'' b \<or> (suffix ''{'' a \<and> prefix ''}'' b)"
proof -
  consider "sublist ''{}'' a" | "sublist ''{}'' b"
    | xs1 xs2 where "''{}'' = xs1 @ xs2" "suffix xs1 a" "prefix xs2 b"
    using assms unfolding sublist_append by blast
  then show ?thesis
  proof cases
    case 3
    have "(xs1 = [] \<and> xs2 = ''{}'') \<or> (xs1 = ''{'' \<and> xs2 = ''}'') \<or> (xs1 = ''{}'' \<and> xs2 = [])"
    proof (cases xs1)
      case Nil
      then show ?thesis using 3(1) by simp
    next
      case (Cons x xs)
      show ?thesis
      proof (cases xs)
        case Nil
        then show ?thesis using 3(1) Cons by simp
      next
        case (Cons y ys)
        then show ?thesis using 3(1) \<open>xs1 = x # xs\<close> by simp
      qed
    qed
    then show ?thesis
      using 3(2,3) prefix_imp_sublist[of "''{}''" b] suffix_imp_sublist[of "''{}''" a] by blast
  qed auto
qed

lemma prefix_single_append:
  "prefix [c] (a @ b) \<longleftrightarrow> (if a = [] then prefix [c] b else prefix [c] a)"
  by (cases a) simp_all

lemma suffix_single: "suffix [c] s \<longleftrightarrow> s \<noteq> [] \<and> last s = c"
proof (cases s rule: rev_cases)
  case Nil
  then show ?thesis by simp
next
  case (snoc ys y)
  have "suffix ([] @ [c]) (ys @ [y]) \<longleftrightarrow> c = y" by (simp only: snoc_suffix_snoc) simp
  then show ?thesis using snoc by auto
qed

lemma suffix_single_append:
  "suffix [c] (a @ b) \<longleftrightarrow> (if b = [] then suffix [c] a else suffix [c] b)"
  by (simp add: suffix_single)

lemma clean_Nil: "clean []"
  by (simp add: clean_def)

lemma clean_append: "clean a \<Longrightarrow> clean b \<Longrightarrow> clean (a @ b)"
  using empty_block_append[of a b]
  by (auto simp add: clean_def prefix_single_append suffix_single_append split: if_splits)

lemma clean_name: "brace_free n \<Longrightarrow> clean n"
  unfolding clean_def brace_free_def
  using set_mono_sublist[of "''{}''" n] set_mono_prefix[of "''}''" n] set_mono_suffix[of "''{''" n]
  by auto

lemma clean_comma: "clean '', ''"
  by (simp add: clean_def sublist_code suffix_single)

lemma clean_selection: "brace_free n \<Longrightarrow> clean (n @ '', '')"
  by (simp add: clean_append clean_name clean_comma)

lemma clean_block:
  assumes "clean pre" and "clean fs" and "fs \<noteq> []"
  shows "clean (pre @ '' {'' @ fs @ ''},'')"
proof -
  have a1: "\<not> sublist ''{}'' ''},''" by (simp add: sublist_code)
  have a2: "\<not> sublist ''{}'' '' {''" by (simp add: sublist_code)
  have f: "\<not> sublist ''{}'' fs" "\<not> prefix ''}'' fs" "\<not> suffix ''{'' fs"
    using assms(2) by (simp_all add: clean_def)
  have p0: "\<not> sublist ''{}'' pre" "\<not> prefix ''}'' pre" "\<not> suffix ''{'' pre"
    using assms(1) by (simp_all add: clean_def)
  have x1: "\<not> sublist ''{}'' (fs @ ''},'')"
    using empty_block_append[of fs "''},''"] a1 f by blast
  have x2: "\<not> prefix ''}'' (fs @ ''},'')"
    using f(2) assms(3) by (simp add: prefix_single_append)
  have y1: "\<not> sublist ''{}'' ('' {'' @ fs @ ''},'')"
    using empty_block_append[of "'' {''" "fs @ ''},''"] a2 x1 x2 by blast
  have y2: "\<not> prefix ''}'' ('' {'' @ fs @ ''},'')"
    by simp
  have z: "\<not> sublist ''{}'' (pre @ '' {'' @ fs @ ''},'')"
    using empty_block_append[of pre "'' {'' @ fs @ ''},''"] p0 y1 y2 by blast
  have p: "\<not> prefix ''}'' (pre @ '' {'' @ fs @ ''},'')"
    using p0(2) y2 by (simp only: prefix_single_append[of _ pre] split: if_splits) simp
  have s: "\<not> suffix ''{'' (pre @ '' {'' @ fs @ ''},'')"
    by (simp add: suffix_single)
  show ?thesis using z p s by (simp add: clean_def)
qed

lemma fields_loop_clean:
  assumes "\<And>field u s u'. field \<in> set fs \<Longrightarrow> f field u = (Inr s, u') \<Longrightarrow> clean s"
    and "clean built"
    and "materialize_output_fields_loop f fs built used = (Inr s, u')"
  shows "clean s"
  using assms
proof (induction fs arbitrary: built used)
  case Nil
  then show ?case by simp
next
  case (Cons field rest)
  obtain r u where fu: "f field used = (r, u)" by (cases "f field used")
  show ?case
  proof (cases r)
    case (Inl e)
    then show ?thesis using fu Cons.prems(3) by simp
  next
    case (Inr out)
    have o: "clean out" using Cons.prems(1)[of field used out u] fu Inr by simp
    let ?b = "if out \<noteq> [] \<and> out \<noteq> ''{}'' then built @ out else built"
    have b: "clean ?b" using o Cons.prems(2) clean_append[of built out] by simp
    have l: "materialize_output_fields_loop f rest ?b u = (Inr s, u')"
      using Cons.prems(3) fu Inr by simp
    show ?thesis
      by (rule Cons.IH[OF _ b l]) (use Cons.prems(1) in auto)
  qed
qed

lemma materialize_output_clean_aux:
  assumes names: "\<forall>n \<in> field_names objects. brace_free n"
  shows "(\<forall>td used incl s u. brace_free (td_name td) \<and> materialize_output d objects td used incl = (Inr s, u)
       \<longrightarrow> clean s)
   \<and> (\<forall>td used s u. td_ofType td = None \<and> materialize_output d objects td used False = (Inr s, u)
       \<longrightarrow> clean s)
   \<and> (\<forall>object_name used s u. materialize_output_object_fields d objects object_name used = (Inr s, u)
       \<longrightarrow> clean s)"
proof (induction d)
  case 0
  then show ?case by simp
next
  case (Suc d)
  have ih_any: "brace_free (td_name td) \<Longrightarrow> materialize_output d objects td used incl = (Inr s, u)
       \<Longrightarrow> clean s" for td used incl s u
    using Suc.IH by blast
  have ih_base: "td_ofType td = None \<Longrightarrow> materialize_output d objects td used False = (Inr s, u)
       \<Longrightarrow> clean s" for td used s u
    using Suc.IH by blast
  have ih_fields: "materialize_output_object_fields d objects object_name used = (Inr s, u)
       \<Longrightarrow> clean s" for object_name used s u
    using Suc.IH by blast
  have fields: "clean s"
    if eq: "materialize_output_object_fields (Suc d) objects object_name used = (Inr s, u)"
    for object_name used s u
  proof (cases "MAX_OBJECT_CYCLES \<le> count_list used object_name")
    case True
    then show ?thesis using eq clean_Nil by auto
  next
    case False
    show ?thesis
    proof (cases "map_of objects object_name")
      case None
      then show ?thesis using False eq by simp
    next
      case (Some object_info)
      have l: "materialize_output_fields_loop (\<lambda>field used'. materialize_output d objects field used' True)
                    (oi_fields object_info) [] (used @ [object_name]) = (Inr s, u)"
        using eq False Some by simp
      show ?thesis
      proof (rule fields_loop_clean[OF _ clean_Nil l])
        fix field u0 s0 u1
        assume fin: "field \<in> set (oi_fields object_info)"
          and m: "materialize_output d objects field u0 True = (Inr s0, u1)"
        have "td_name field \<in> field_names objects"
          using fin map_of_SomeD[OF Some] by (auto simp add: field_names_def)
        then have "brace_free (td_name field)" using names by blast
        then show "clean s0" using m by (rule ih_any)
      qed
    qed
  qed
  have out_base: "clean s"
    if n: "td_ofType td = None" and eq: "materialize_output (Suc d) objects td used False = (Inr s, u)"
    for td used s u
  proof (cases "materialize_output_object_fields d objects (td_type td) used")
    case (Pair r u')
    show ?thesis
    proof (cases r)
      case (Inl e)
      then show ?thesis using eq n Pair clean_Nil by (auto split: if_splits)
    next
      case (Inr fs)
      have "clean fs" using ih_fields Pair Inr by blast
      then show ?thesis using eq n Pair Inr clean_block[of "[]" fs] clean_Nil by (auto split: if_splits)
    qed
  qed
  have out_any: "clean s"
    if bf: "brace_free (td_name td)" and eq: "materialize_output (Suc d) objects td used incl = (Inr s, u)"
    for td used incl s u
  proof -
    have self: "clean (td_name td @ '', '')" using bf by (rule clean_selection)
    have nm: "clean (td_name td)" using bf by (rule clean_name)
    consider (obj) "td_kind td = ''OBJECT''"
      | (wrap) "td_kind td \<noteq> ''OBJECT''" "td_kind td = ''NON_NULL'' \<or> td_kind td = ''LIST''"
      | (other) "td_kind td \<noteq> ''OBJECT''" "td_kind td \<noteq> ''NON_NULL''" "td_kind td \<noteq> ''LIST''"
      by blast
    then show ?thesis
    proof cases
      case obj
      obtain r u' where p: "materialize_output_object_fields d objects (td_type td) used = (r, u')"
        by (cases "materialize_output_object_fields d objects (td_type td) used")
      show ?thesis
      proof (cases r)
        case (Inl e)
        then show ?thesis using eq obj p by simp
      next
        case (Inr fs)
        have "clean fs" using ih_fields p Inr by blast
        then show ?thesis
          using eq obj p Inr clean_block[of "[]" fs] clean_block[of "td_name td" fs] clean_Nil nm
          by (auto split: if_splits)
      qed
    next
      case wrap
      show ?thesis
      proof (cases "td_ofType td")
        case None
        then show ?thesis using eq wrap by auto
      next
        case (Some inner)
        show ?thesis
        proof (cases "td_kind (get_base_oftype inner) = ''SCALAR''")
          case True
          then show ?thesis using eq wrap Some self by auto
        next
          case False
          obtain r u' where p: "materialize_output d objects (get_base_oftype inner) used False = (r, u')"
            by (cases "materialize_output d objects (get_base_oftype inner) used False")
          show ?thesis
          proof (cases r)
            case (Inl e)
            then show ?thesis using eq wrap Some False p by auto
          next
            case (Inr m)
            have m: "clean m"
              using ih_base[OF get_base_oftype_no_ofType] p Inr by blast
            have "clean (td_name td @ m @ '', '')"
              using clean_append[OF nm clean_append[OF m clean_comma]] by simp
            then show ?thesis using eq wrap Some False p Inr m clean_Nil by (auto split: if_splits)
          qed
        qed
      qed
    next
      case other
      then show ?thesis using eq self clean_Nil by (auto split: if_splits)
    qed
  qed
  show ?case using fields out_any out_base by blast
qed

lemma materialize_output_no_empty_selection_set:
  assumes "\<forall>n \<in> field_names objects. brace_free n" and "brace_free (td_name td)"
    and "materialize_output d objects td used incl = (Inr s, u)"
  shows "\<not> sublist ''{}'' s"
  using materialize_output_clean_aux[OF assms(1), of d] assms(2,3) unfolding clean_def by blast

lemma materialize_output_selects:
  assumes "materialize_output d objects td used incl = (Inr s, u)"
  shows "s = [] \<or> selects (names_where written_bare objects td) s"
  using materialize_output_selects_aux[of d objects] assms by blast

lemma materialize_output_omits_empty_object:
  assumes "td_kind td = ''OBJECT''"
    and "materialize_output_object_fields d objects (td_type td) used = (Inr [], u)"
  shows "materialize_output (Suc d) objects td used incl = (Inr [], u)"
  using assms by simp

lemma materialize_output_omits_empty_wrapped:
  assumes "td_kind td = ''NON_NULL'' \<or> td_kind td = ''LIST''" and "td_ofType td = Some inner"
    and "td_kind (get_base_oftype inner) \<noteq> ''SCALAR''"
    and "materialize_output d objects (get_base_oftype inner) used False = (Inr [], u)"
  shows "materialize_output (Suc d) objects td used incl = (Inr [], u)"
  using assms by auto

lemma fields_loop_skips_empty:
  assumes "f field used = (Inr [], u)"
  shows "materialize_output_fields_loop f (field # rest) built used
         = materialize_output_fields_loop f rest built u"
  using assms by simp

lemma materialize_output_schema_search:
  "materialize_output 9 schema_search output_search [] False
     = (Inr '' {search, node, },'', [''Query''])"
  by (simp add: eval_nat_numeral schema_search_def output_search_def MAX_OBJECT_CYCLES_def)

text \<open>
  Claim C9, as stated, fails. The object \<open>Query\<close> has a field \<open>search\<close> of a union type
  and a field \<open>node\<close> of an interface type, and no other. Its materialization is not the
  empty string, and it selects no scalar: neither the descriptor nor any field of the
  schema is of scalar type.
\<close>

theorem materialize_output_without_scalar_selection:
  "materialize_output 9 schema_search output_search [] False
     = (Inr '' {search, node, },'', [''Query''])
   \<and> '' {search, node, },'' \<noteq> []
   \<and> \<not> selects (names_where scalar_field schema_search output_search) '' {search, node, },''"
  using materialize_output_schema_search
  by (simp add: selects_def names_where_def scalar_field_def schema_search_def output_search_def
      del: set_filter)

text \<open>
  Claim C9, amended. Whatever \<open>materialize_output\<close> returns for an output descriptor is
  either the empty string or holds, followed by \<open>", "\<close>, the name of a field that it
  writes bare: a field of the schema, or the descriptor itself, that is a \<open>NON_NULL\<close> or
  a \<open>LIST\<close> over a scalar base or is of a kind other than \<open>OBJECT\<close>, \<open>NON_NULL\<close> and
  \<open>LIST\<close> (a scalar or an enum, and an interface or a union as well). With names free
  of braces, as GraphQL names are, the returned string has no \<open>{}\<close> in it. A field whose
  nested selection comes out empty is left out with its name: an \<open>OBJECT\<close> whose fields
  materialize to the empty string, and a \<open>NON_NULL\<close> or \<open>LIST\<close> over a base that is no
  scalar and materializes to the empty string, both give the empty string, also when the
  name was to be included.
\<close>

theorem materialize_output_selection_sets:
  "(materialize_output d objects td used include_name = (Inr s, u) \<longrightarrow>
      (s = [] \<or> selects (names_where written_bare objects td) s)
      \<and> ((\<forall>n \<in> field_names objects. brace_free n) \<and> brace_free (td_name td)
           \<longrightarrow> \<not> sublist ''{}'' s))
   \<and> (td_kind td = ''OBJECT''
        \<and> materialize_output_object_fields d objects (td_type td) used = (Inr [], u)
        \<longrightarrow> materialize_output (Suc d) objects td used include_name = (Inr [], u))
   \<and> ((td_kind td = ''NON_NULL'' \<or> td_kind td = ''LIST'') \<and> td_ofType td = Some inner
        \<and> td_kind (get_base_oftype inner) \<noteq> ''SCALAR''
        \<and> materialize_output d objects (get_base_oftype inner) used False = (Inr [], u)
        \<longrightarrow> materialize_output (Suc d) objects td used include_name = (Inr [], u))"
  using materialize_output_selects[of d objects td used include_name s u]
    materialize_output_no_empty_selection_set[of objects td d used include_name s u]
    materialize_output_omits_empty_object[of td d objects used u include_name]
    materialize_output_omits_empty_wrapped[of td inner d objects used u include_name]
  by blast

lemma field_names_schema_a: "field_names schema_a = {''id'', ''friend''}"
  by (auto simp add: field_names_def schema_a_def)

lemma written_bare_names_schema_a: "names_where written_bare schema_a output_a = {''id''}"
  by (simp add: names_where_def written_bare_def schema_a_def output_a_def del: set_filter)

lemma materialize_output_object_fields_schema_b:
  "materialize_output_object_fields 7 schema_b ''B'' [] = (Inr [], [''B'', ''B''])"
  by (simp add: eval_nat_numeral schema_b_def MAX_OBJECT_CYCLES_def)

lemma materialize_output_base_schema_b:
  "materialize_output 8 schema_b (TypeDescriptor ''OBJECT'' ''B'' ''B'' None) [] False
     = (Inr [], [''B'', ''B''])"
  by (simp add: eval_nat_numeral schema_b_def MAX_OBJECT_CYCLES_def)

theorem materialize_output_selection_sets_witness:
  "materialize_output 9 schema_a output_a [] False
       = (Inr '' {id, friend {id, },, },'', [''A'', ''A''])
   \<and> names_where written_bare schema_a output_a = {''id''}
   \<and> selects {''id''} '' {id, friend {id, },, },''
   \<and> field_names schema_a = {''id'', ''friend''}
   \<and> brace_free ''id'' \<and> brace_free ''friend'' \<and> brace_free (td_name output_a)
   \<and> \<not> sublist ''{}'' '' {id, friend {id, },, },''
   \<and> materialize_output_object_fields 7 schema_b ''B'' [] = (Inr [], [''B'', ''B''])
   \<and> materialize_output 8 schema_b (TypeDescriptor ''OBJECT'' ''b'' ''B'' None) [] True
       = (Inr [], [''B'', ''B''])
   \<and> materialize_output 8 schema_b (TypeDescriptor ''OBJECT'' ''B'' ''B'' None) [] False
       = (Inr [], [''B'', ''B''])
   \<and> materialize_output 9 schema_b
         (TypeDescriptor ''NON_NULL'' ''b'' [] (Some (TypeDescriptor ''OBJECT'' ''B'' ''B'' None))) [] True
       = (Inr [], [''B'', ''B''])"
  using materialize_output_selection_sets[of 9 schema_a output_a "[]" False
      "'' {id, friend {id, },, },''" "[''A'', ''A'']"]
    materialize_output_selection_sets[of 7 schema_b "TypeDescriptor ''OBJECT'' ''b'' ''B'' None" "[]" True
      "[]" "[''B'', ''B'']"]
    materialize_output_selection_sets[of 8 schema_b
      "TypeDescriptor ''NON_NULL'' ''b'' [] (Some (TypeDescriptor ''OBJECT'' ''B'' ''B'' None))" "[]" True
      "[]" "[''B'', ''B'']" "TypeDescriptor ''OBJECT'' ''B'' ''B'' None"]
    materialize_output_schema_a field_names_schema_a written_bare_names_schema_a
    materialize_output_object_fields_schema_b materialize_output_base_schema_b
  by (simp add: brace_free_def output_a_def eval_nat_numeral)

section \<open>The retrier\<close>

text \<open>A message without the phrase: the response comes back as a failure, nothing is sent.\<close>

lemma retry_other_message:
  assumes "retry_new_payload c payload response = Inr None"
  shows "retry c url payload response retry_count net = (Inr (response, False), net)"
  using assms by (simp add: retry.simps)

lemma retry_syntax_error:
  "retry (example_collaborators dict_transport) url payload syntax_error 0 0
     = (Inr (syntax_error, False), 0)"
  by (simp add: retry.simps retry_new_payload_def example_collaborators_def dict_transport_def
      syntax_error_def NON_NULL_PHRASE_def sublist_code)

text \<open>
  Against a transport that returns the parsed response alone and keeps answering with the
  null-field error, \<open>retry\<close> started at count 0 sends four payloads, the first resend and
  three recursive retries, and then reports failure.
\<close>

lemma retry_dict_transport_four_sends:
  "retry (example_collaborators dict_transport) url payload null_field_error 0 0
     = (Inr (null_field_error, False), 4)"
  by (simp add: retry.simps retry_new_payload_def example_collaborators_def dict_transport_def
      null_field_error_def NON_NULL_PHRASE_def get_new_payload_for_retry_non_null_def sublist_code
      max_retries_def)

text \<open>
  Claim C7, at the input where the code departs from it. The transport returns what the
  engine takes apart at every call: the pair of the parsed response and the \<open>requests\<close>
  response. It keeps answering with the null-field error. \<open>retry\<close> resends once, tests
  \<open>"errors" in response\<close> on the pair, finds no such element, and reports success with
  the pair as the response: one request, no recursion, no failure reported.
\<close>

theorem retry_pair_transport_reports_success:
  "retry (example_collaborators pair_transport) url payload null_field_error 0 0
     = (Inr (PTuple [null_field_error, PResponse 200], True), 1)"
  by (simp add: retry.simps retry_new_payload_def example_collaborators_def pair_transport_def
      null_field_error_def NON_NULL_PHRASE_def get_new_payload_for_retry_non_null_def sublist_code)

section \<open>The engine\<close>

text \<open>
  Claim C2. For every engine, operation name, bucket and network state, and whatever the
  collaborators do, the \<open>try\<close> block of \<open>run_regular_mutation\<close> and of
  \<open>run_regular_query\<close> raises \<open>TypeError\<close> at the constructor of the materializer, with
  the network untouched, and the method returns the bucket it was given with success
  \<open>False\<close>.
\<close>

theorem run_regular_operations_TypeError:
  "run_regular_mutation_try c self mutation_name bucket net = (Inl TypeError, net)
   \<and> run_regular_mutation c self mutation_name bucket net = (Inr (bucket, False), net)
   \<and> run_regular_query_try d h st c self query_name bucket net = (Inl TypeError, net)
   \<and> run_regular_query d h st c self query_name bucket net = (Inr (bucket, False), net)"
  by (simp add: run_regular_mutation_def run_regular_mutation_try_def RegularMutationMaterializer_init_def
      RegularMaterializer_init_def mutation_boundary_def run_regular_mutation_except_def
      run_regular_query_def run_regular_query_try_def RegularQueryMaterializer_init_def
      query_boundary_def run_regular_query_except_def)

text \<open>
  The \<open>except\<close> clauses on the outcome of a \<open>try\<close> block: every exception other than
  \<open>bdb.BdbQuit\<close> becomes the outcome "failed" with the bucket the method was given,
  \<open>bdb.BdbQuit\<close> is raised again, and an outcome that is no exception passes unchanged.
\<close>

lemma operation_boundary_catches:
  "(e \<noteq> BdbQuit \<longrightarrow>
      mutation_boundary bucket (Inl e, net) = (Inr (bucket, False), net)
      \<and> query_boundary bucket (Inl e, net) = (Inr (bucket, False), net))
   \<and> mutation_boundary bucket (Inl BdbQuit, net) = (Inl BdbQuit, net)
   \<and> query_boundary bucket (Inl BdbQuit, net) = (Inl BdbQuit, net)
   \<and> mutation_boundary bucket (Inr r, net) = (Inr r, net)
   \<and> query_boundary bucket (Inr r, net) = (Inr r, net)"
  by (cases e) (simp_all add: mutation_boundary_def query_boundary_def run_regular_mutation_except_def
      run_regular_query_except_def)

text \<open>The \<open>try\<close> blocks raise no \<open>bdb.BdbQuit\<close>: what they raise is never raised again.\<close>

lemma try_blocks_raise_no_BdbQuit:
  "fst (run_regular_mutation_try c self mutation_name bucket net) \<noteq> Inl BdbQuit"
  "fst (run_regular_query_try d h st c self query_name bucket net) \<noteq> Inl BdbQuit"
  by (simp_all add: run_regular_mutation_try_def RegularMutationMaterializer_init_def
      RegularMaterializer_init_def run_regular_query_try_def RegularQueryMaterializer_init_def)



section \<open>Interpreting a response\<close>

lemma response_value_success:
  assumes "map_of resp ''errors'' = None"
    and "map_of resp ''data'' = Some (PDict data)"
    and "map_of data operation_name = Some v" and "v \<noteq> PNone"
    and "check_is_data_empty c (PDict data) = Inr False"
  shows "response_value c url operation_name payload bucket (PDict resp) net = (Inr (Continue v), net)"
proof -
  have ne: "resp \<noteq> []" using assms(2) by auto
  have no: "''errors'' \<notin> fst ` set resp" using assms(1) by (simp add: map_of_eq_None_iff)
  have yes: "''data'' \<in> fst ` set resp" using assms(2) by (meson domI dom_map_of_conv_image_fst[THEN equalityD1] subsetD)
  show ?thesis using ne no yes assms by (simp add: response_value_def)
qed

lemma mutation_send_and_process_success:
  assumes "send_graphql_request c url payload net = (Inr (PTuple [PDict resp, PResponse code]), net')"
    and "map_of resp ''errors'' = None"
    and "map_of resp ''data'' = Some (PDict data)"
    and "map_of data operation_name = Some (PDict fs)"
    and "check_is_data_empty c (PDict data) = Inr False"
  shows "mutation_send_and_process c operations url operation_name payload used bucket net
         = (case mutation_bucket_update c operations operation_name used bucket (PDict fs) of
              Inl e \<Rightarrow> (Inl e, net') | Inr new_bucket \<Rightarrow> (Inr (new_bucket, True), net'))"
  using assms(1) response_value_success[OF assms(2,3,4) _ assms(5), of url payload bucket net']
  by (simp add: mutation_send_and_process_def py_unpack2_def)

lemma query_send_and_process_success:
  assumes "send_graphql_request c url payload net = (Inr (PTuple [PDict resp, PResponse code]), net')"
    and "map_of resp ''errors'' = None"
    and "map_of resp ''data'' = Some (PDict data)"
    and "map_of data operation_name = Some (PDict fs)"
    and "check_is_data_empty c (PDict data) = Inr False"
  shows "query_send_and_process c operations url operation_name payload bucket net
         = (case query_bucket_update c operations operation_name bucket (PDict fs) of
              Inl e \<Rightarrow> (Inl e, net') | Inr new_bucket \<Rightarrow> (Inr (new_bucket, True), net'))"
  using assms(1) response_value_success[OF assms(2,3,4) _ assms(5), of url payload bucket net']
  by (simp add: query_send_and_process_def py_unpack2_def)

text \<open>
  Lines 72 to 127 of \<open>run_regular_mutation\<close> and 155 to 198 of \<open>run_regular_query\<close>, taken
  by themselves. The transport returned the pair of a parsed response and the
  \<open>requests\<close> response; the parsed response has no \<open>errors\<close>, its \<open>data\<close> is not empty
  and holds, for the operation, a dictionary with an \<open>id\<close> field; the operation is known
  and has an output type. Then these lines report success, and the bucket they return is:
  for \<open>CREATE\<close>, what \<open>put_in_object_bucket\<close> makes of the bucket, the output type and
  the returned identifier when the identifier is not null, and the bucket unchanged when
  it is null; for \<open>UPDATE\<close>, the bucket unchanged; for \<open>DELETE\<close>, what
  \<open>remove_from_object_bucket\<close> makes of the bucket, the output type and the identifier
  that \<open>used_objects\<close> records for the output type, and the bucket unchanged when it
  records none; for any other kind, the bucket unchanged. A query inserts a returned
  identifier that is not null as \<open>CREATE\<close> does.
\<close>

lemma response_interpretation_by_operation_kind:
  assumes "send_graphql_request c url payload net = (Inr (PTuple [PDict resp, PResponse code]), net')"
    and "map_of resp ''errors'' = None"
    and "map_of resp ''data'' = Some (PDict data)"
    and "map_of data operation_name = Some (PDict fs)"
    and "check_is_data_empty c (PDict data) = Inr False"
    and "map_of fs ''id'' = Some returned_id"
    and "get_output_type c operation_name operations = Inr output_type"
    and "map_of operations operation_name = Some info"
  shows
    "(op_mutationType info = ''CREATE'' \<and> returned_id \<noteq> PNone
        \<and> put_in_object_bucket c bucket output_type returned_id = Inr new_bucket
      \<longrightarrow> mutation_send_and_process c operations url operation_name payload used bucket net
            = (Inr (new_bucket, True), net'))
     \<and> (op_mutationType info = ''CREATE'' \<and> returned_id = PNone
      \<longrightarrow> mutation_send_and_process c operations url operation_name payload used bucket net
            = (Inr (bucket, True), net'))
     \<and> (op_mutationType info = ''UPDATE''
      \<longrightarrow> mutation_send_and_process c operations url operation_name payload used bucket net
            = (Inr (bucket, True), net'))
     \<and> (op_mutationType info = ''DELETE'' \<and> map_of used output_type = Some used_object_value
        \<and> remove_from_object_bucket c bucket output_type used_object_value = Inr new_bucket
      \<longrightarrow> mutation_send_and_process c operations url operation_name payload used bucket net
            = (Inr (new_bucket, True), net'))
     \<and> (op_mutationType info = ''DELETE'' \<and> map_of used output_type = None
      \<longrightarrow> mutation_send_and_process c operations url operation_name payload used bucket net
            = (Inr (bucket, True), net'))
     \<and> (op_mutationType info \<notin> {''CREATE'', ''UPDATE'', ''DELETE''}
      \<longrightarrow> mutation_send_and_process c operations url operation_name payload used bucket net
            = (Inr (bucket, True), net'))
     \<and> (returned_id \<noteq> PNone \<and> put_in_object_bucket c bucket output_type returned_id = Inr new_bucket
      \<longrightarrow> query_send_and_process c operations url operation_name payload bucket net
            = (Inr (new_bucket, True), net'))
     \<and> (returned_id = PNone
      \<longrightarrow> query_send_and_process c operations url operation_name payload bucket net
            = (Inr (bucket, True), net'))"
  using assms(6,7,8)
  by (simp add: mutation_send_and_process_success[OF assms(1,2,3,4,5)]
      query_send_and_process_success[OF assms(1,2,3,4,5)]
      mutation_bucket_update_def query_bucket_update_def)

text \<open>
  The four kinds of mutation and a query on these lines, with the stand-in collaborators:
  \<open>createUser\<close> adds \<open>u1\<close>, \<open>updateUser\<close> and \<open>touchUser\<close> (of kind \<open>UNKNOWN\<close>) leave
  the bucket, \<open>deleteUser\<close> removes the \<open>u1\<close> that the materializer used, \<open>findUser\<close>
  adds \<open>u7\<close>.
\<close>

lemma response_interpretation_examples:
  "mutation_send_and_process
       (example_collaborators (answering ''createUser'' (PDict [(''id'', PStr ''u1'')])))
       example_mutations ''http://host/graphql'' ''createUser'' ''mutation'' [] [] 0
     = (Inr ([(''User'', [PStr ''u1''])], True), 1)
   \<and> mutation_send_and_process
       (example_collaborators (answering ''updateUser'' (PDict [(''id'', PStr ''u1'')])))
       example_mutations ''http://host/graphql'' ''updateUser'' ''mutation'' [] [(''User'', [PStr ''u1''])] 0
     = (Inr ([(''User'', [PStr ''u1''])], True), 1)
   \<and> mutation_send_and_process
       (example_collaborators (answering ''deleteUser'' (PDict [(''id'', PStr ''u1'')])))
       example_mutations ''http://host/graphql'' ''deleteUser'' ''mutation'' [(''User'', PStr ''u1'')]
       [(''User'', [PStr ''u0'', PStr ''u1''])] 0
     = (Inr ([(''User'', [PStr ''u0''])], True), 1)
   \<and> mutation_send_and_process
       (example_collaborators (answering ''touchUser'' (PDict [(''id'', PStr ''u1'')])))
       example_mutations ''http://host/graphql'' ''touchUser'' ''mutation'' [] [(''User'', [PStr ''u0''])] 0
     = (Inr ([(''User'', [PStr ''u0''])], True), 1)
   \<and> query_send_and_process
       (example_collaborators (answering ''findUser'' (PDict [(''id'', PStr ''u7'')])))
       example_queries ''http://host/graphql'' ''findUser'' ''query'' [(''User'', [PStr ''u0''])] 0
     = (Inr ([(''User'', [PStr ''u0'', PStr ''u7''])], True), 1)"
  using
    response_interpretation_by_operation_kind[of
      "example_collaborators (answering ''createUser'' (PDict [(''id'', PStr ''u1'')]))"
      "''http://host/graphql''" "''mutation''" 0
      "[(''data'', PDict [(''createUser'', PDict [(''id'', PStr ''u1'')])])]" 200 1
      "[(''createUser'', PDict [(''id'', PStr ''u1'')])]" "''createUser''" "[(''id'', PStr ''u1'')]"
      "PStr ''u1''" example_mutations "''User''" create_user "[]" "[(''User'', [PStr ''u1''])]" "[]" PNone]
    response_interpretation_by_operation_kind[of
      "example_collaborators (answering ''updateUser'' (PDict [(''id'', PStr ''u1'')]))"
      "''http://host/graphql''" "''mutation''" 0
      "[(''data'', PDict [(''updateUser'', PDict [(''id'', PStr ''u1'')])])]" 200 1
      "[(''updateUser'', PDict [(''id'', PStr ''u1'')])]" "''updateUser''" "[(''id'', PStr ''u1'')]"
      "PStr ''u1''" example_mutations "''User''" "create_user\<lparr>op_mutationType := ''UPDATE''\<rparr>"
      "[(''User'', [PStr ''u1''])]" "[]" "[]" PNone]
    response_interpretation_by_operation_kind[of
      "example_collaborators (answering ''deleteUser'' (PDict [(''id'', PStr ''u1'')]))"
      "''http://host/graphql''" "''mutation''" 0
      "[(''data'', PDict [(''deleteUser'', PDict [(''id'', PStr ''u1'')])])]" 200 1
      "[(''deleteUser'', PDict [(''id'', PStr ''u1'')])]" "''deleteUser''" "[(''id'', PStr ''u1'')]"
      "PStr ''u1''" example_mutations "''User''" delete_user
      "[(''User'', [PStr ''u0'', PStr ''u1''])]" "[(''User'', [PStr ''u0''])]" "[(''User'', PStr ''u1'')]"
      "PStr ''u1''"]
    response_interpretation_by_operation_kind[of
      "example_collaborators (answering ''touchUser'' (PDict [(''id'', PStr ''u1'')]))"
      "''http://host/graphql''" "''mutation''" 0
      "[(''data'', PDict [(''touchUser'', PDict [(''id'', PStr ''u1'')])])]" 200 1
      "[(''touchUser'', PDict [(''id'', PStr ''u1'')])]" "''touchUser''" "[(''id'', PStr ''u1'')]"
      "PStr ''u1''" example_mutations "''User''" "create_user\<lparr>op_mutationType := ''UNKNOWN''\<rparr>"
      "[(''User'', [PStr ''u0''])]" "[]" "[]" PNone]
    response_interpretation_by_operation_kind[of
      "example_collaborators (answering ''findUser'' (PDict [(''id'', PStr ''u7'')]))"
      "''http://host/graphql''" "''query''" 0
      "[(''data'', PDict [(''findUser'', PDict [(''id'', PStr ''u7'')])])]" 200 1
      "[(''findUser'', PDict [(''id'', PStr ''u7'')])]" "''findUser''" "[(''id'', PStr ''u7'')]"
      "PStr ''u7''" example_queries "''User''" find_user
      "[(''User'', [PStr ''u0''])]" "[(''User'', [PStr ''u0'', PStr ''u7''])]" "[]" PNone]
  by (simp add: example_collaborators_def answering_def example_mutations_def example_queries_def
      create_user_def delete_user_def find_user_def)


end
